theory Spec2Isabelle
  imports Main
begin

section \<open>JavaScript values\<close>

text \<open>
  The library passes plain JavaScript values around: option objects, response bodies,
  the private fields of a task.  They are modelled by one datatype.  Numbers are the
  integers (fractions and NaN are outside the model), and an integer stands for the
  double nearest to it: the model is exact for the integers of at most 15 significant
  digits, which a double tells apart and prints back.  An object is the list of its own
  properties in insertion order; strings are lists of 8-bit characters.
\<close>

datatype jsval =
    JUndefined
  | JNull
  | JBool bool
  | JNum int
  | JStr string
  | JArr "jsval list"
  | JObj "(string \<times> jsval) list"

text \<open>Truthiness, as tested by \<^verbatim>\<open>if (x)\<close>, \<^verbatim>\<open>!x\<close>, \<^verbatim>\<open>x || y\<close> and \<^verbatim>\<open>x && y\<close>.\<close>

fun truthy :: "jsval \<Rightarrow> bool" where
  "truthy JUndefined = False"
| "truthy JNull = False"
| "truthy (JBool b) = b"
| "truthy (JNum n) = (n \<noteq> 0)"
| "truthy (JStr s) = (s \<noteq> [])"
| "truthy (JArr xs) = True"
| "truthy (JObj kvs) = True"

text \<open>\<^verbatim>\<open>a || b\<close>\<close>

definition js_or :: "jsval \<Rightarrow> jsval \<Rightarrow> jsval" where
  "js_or a b = (if truthy a then a else b)"

text \<open>
  \<^verbatim>\<open>o.k\<close> and \<^verbatim>\<open>o[k]\<close> on a value that is neither \<^verbatim>\<open>undefined\<close> nor \<^verbatim>\<open>null\<close>: the own
  property of an object, \<^verbatim>\<open>undefined\<close> on everything else.  The program only reads the
  keys \<^verbatim>\<open>message\<close>, \<^verbatim>\<open>code\<close>, \<^verbatim>\<open>error\<close>, \<^verbatim>\<open>server\<close>, \<^verbatim>\<open>task\<close>, \<^verbatim>\<open>remaining_files\<close>, \<^verbatim>\<open>token\<close>,
  \<^verbatim>\<open>debug\<close>, the field names of its schemas and the four names of the tools; none of
  them is inherited from a prototype.
\<close>

fun get_prop :: "jsval \<Rightarrow> string \<Rightarrow> jsval" where
  "get_prop (JObj kvs) k = (case map_of kvs k of Some v \<Rightarrow> v | None \<Rightarrow> JUndefined)"
| "get_prop v k = JUndefined"

text \<open>\<^verbatim>\<open>o?.[k]\<close>\<close>

definition get_prop_opt :: "jsval \<Rightarrow> string \<Rightarrow> jsval" where
  "get_prop_opt v k = (if v = JUndefined \<or> v = JNull then JUndefined else get_prop v k)"

text \<open>\<^verbatim>\<open>k in o\<close> for an object \<^verbatim>\<open>o\<close>.\<close>

fun has_prop :: "jsval \<Rightarrow> string \<Rightarrow> bool" where
  "has_prop (JObj kvs) k = (map_of kvs k \<noteq> None)"
| "has_prop v k = False"

text \<open>
  How \<^verbatim>\<open>String(n)\<close> prints an integer: its decimal digits below \<open>10^21\<close>; from there on
  the exponent form, \<^verbatim>\<open>1e+21\<close> or \<^verbatim>\<open>1.5e+21\<close>, of the digits without the zeros at their end.
\<close>

fun string_of_nat :: "nat \<Rightarrow> string" where
  "string_of_nat n =
     (if n < 10 then [''0123456789'' ! n]
      else string_of_nat (n div 10) @ [''0123456789'' ! (n mod 10)])"

declare string_of_nat.simps [simp del]

definition strip_zeros :: "string \<Rightarrow> string" where
  "strip_zeros ds = rev (dropWhile (\<lambda>c. c = CHR ''0'') (rev ds))"

definition string_of_magnitude :: "nat \<Rightarrow> string" where
  "string_of_magnitude n =
     (if n < 1000000000000000000000 then string_of_nat n
      else
        (case strip_zeros (string_of_nat n) of
           [] \<Rightarrow> []
         | d # ds \<Rightarrow>
             (if ds = [] then [d] else d # CHR ''.'' # ds) @ ''e+''
               @ string_of_nat (length (string_of_nat n) - 1)))"

definition string_of_int :: "int \<Rightarrow> string" where
  "string_of_int i =
     (if i < 0 then CHR ''-'' # string_of_magnitude (nat (- i)) else string_of_magnitude (nat i))"

fun join_comma :: "string list \<Rightarrow> string" where
  "join_comma [] = []"
| "join_comma [s] = s"
| "join_comma (s # t # ss) = s @ '','' @ join_comma (t # ss)"

text \<open>The string a template literal \<^verbatim>\<open>`${x}`\<close> puts in place of \<^verbatim>\<open>x\<close>.\<close>

fun js_to_string :: "jsval \<Rightarrow> string" where
  "js_to_string JUndefined = ''undefined''"
| "js_to_string JNull = ''null''"
| "js_to_string (JBool b) = (if b then ''true'' else ''false'')"
| "js_to_string (JNum n) = string_of_int n"
| "js_to_string (JStr s) = s"
| "js_to_string (JArr xs) =
     join_comma (map (\<lambda>x. if x = JUndefined \<or> x = JNull then [] else js_to_string x) xs)"
| "js_to_string (JObj kvs) = ''[object Object]''"

text \<open>
  \<^verbatim>\<open>String.prototype.trim\<close>: white space and line terminators are removed at both ends
  (of the 8-bit characters: TAB, LF, VT, FF, CR, SPACE and NBSP).
\<close>

definition is_ws :: "char \<Rightarrow> bool" where
  "is_ws c = (of_char c \<in> {9, 10, 11, 12, 13, 32, 160 :: nat})"

definition trim :: "string \<Rightarrow> string" where
  "trim s = rev (dropWhile is_ws (rev (dropWhile is_ws s)))"

section \<open>Error.js\<close>

text \<open>What axios hands back: \<^verbatim>\<open>response.status\<close> and \<^verbatim>\<open>response.data\<close>.\<close>

datatype response = Response (status: jsval) (data: jsval)

text \<open>
  The values the program throws and catches.  \<^verbatim>\<open>ILoveApiError\<close> and \<^verbatim>\<open>NetworkError\<close>
  extend \<^verbatim>\<open>AxiosError\<close>; their constructors pass the \<^verbatim>\<open>response\<close> and the \<^verbatim>\<open>request\<close> of
  the error they wrap to \<^verbatim>\<open>super\<close>.  The last two components of the three axios
  constructors are \<^verbatim>\<open>error.response\<close> (\<open>None\<close> when unset) and whether \<^verbatim>\<open>error.request\<close> is
  set.
\<close>

datatype js_error =
    Error string
  | TypeError string
  | ZodError
  | AxiosError string "response option" bool
  | ILoveApiError string jsval "response option" bool
  | NetworkError string "response option" bool

text \<open>\<^verbatim>\<open>axios.isAxiosError(error)\<close>\<close>

fun isAxiosError :: "js_error \<Rightarrow> bool" where
  "isAxiosError (AxiosError m r q) = True"
| "isAxiosError (ILoveApiError m s r q) = True"
| "isAxiosError (NetworkError m r q) = True"
| "isAxiosError e = False"

text \<open>\<^verbatim>\<open>error.response\<close>\<close>

fun error_response :: "js_error \<Rightarrow> response option" where
  "error_response (AxiosError m r q) = r"
| "error_response (ILoveApiError m s r q) = r"
| "error_response (NetworkError m r q) = r"
| "error_response e = None"

text \<open>\<^verbatim>\<open>error.request\<close>, as a truth value\<close>

fun error_request :: "js_error \<Rightarrow> bool" where
  "error_request (AxiosError m r q) = q"
| "error_request (ILoveApiError m s r q) = q"
| "error_request (NetworkError m r q) = q"
| "error_request e = False"

text \<open>\<^verbatim>\<open>typeof v === 'string' && v.trim()\<close>\<close>

fun string_and_trim :: "jsval \<Rightarrow> bool" where
  "string_and_trim (JStr s) = (trim s \<noteq> [])"
| "string_and_trim v = False"

text \<open>
  \<^verbatim>\<open>classifyError(error)\<close>.  A result \<open>Inl e\<close> is \<^verbatim>\<open>throw e\<close>; \<open>Inr ()\<close> would be a normal
  return.
\<close>

definition classifyError :: "js_error \<Rightarrow> js_error + unit" where
  "classifyError error =
     (if isAxiosError error then
        (case error_response error of
           Some resp \<Rightarrow>
             (let responseData = js_or (data resp) (JObj []);
                  (message, code) =
                    (if string_and_trim (get_prop responseData ''message'') then
                       (js_to_string (get_prop responseData ''message''),
                        js_or (get_prop responseData ''code'') (JNum (- 1)))
                     else if truthy (get_prop responseData ''error'') \<and>
                             string_and_trim (get_prop (get_prop responseData ''error'') ''message'') then
                       (js_to_string (get_prop (get_prop responseData ''error'') ''message''),
                        js_or (get_prop (get_prop responseData ''error'') ''code'') (JNum (- 1)))
                     else (''Unknown API error occurred.'', JNum (- 1)));
                  formattedMessage =
                    message @ '' (Status: '' @ js_to_string (status resp) @ '', Code: ''
                      @ js_to_string code @ '')''
              in Inl (ILoveApiError formattedMessage (status resp)
                        (error_response error) (error_request error)))
         | None \<Rightarrow>
             if error_request error then
               Inl (NetworkError ''No response received from the server.''
                      (error_response error) (error_request error))
             else
               Inl (NetworkError ''An error occurred while setting up the request.''
                      (error_response error) (error_request error)))
      else Inl error)"

section \<open>The outside world: axios, jsonwebtoken, the clock\<close>

text \<open>
  An axios instance, as far as the program configures it: its \<^verbatim>\<open>baseURL\<close> and its
  \<^verbatim>\<open>Authorization\<close> header (\<open>None\<close> while unset).  The \<^verbatim>\<open>Content-Type\<close> header is the same
  constant on every instance.
\<close>

record axios_instance =
  baseURL :: string
  Authorization :: "string option"

datatype http_method = GET | POST | DELETE

text \<open>
  A request: the instance it is sent through, the method, the path, and the data sent
  with it (\<^verbatim>\<open>undefined\<close> when there is none).
\<close>

datatype request = Request axios_instance http_method string jsval

text \<open>
  The payload of a token (\<^verbatim>\<open>JWTPayloadProps\<close> of Auth.js).  \<^verbatim>\<open>file_encryption_key\<close> is
  \<open>None\<close> when the property is \<^verbatim>\<open>undefined\<close>.
\<close>

record JWTPayloadProps =
  iss :: string
  iat :: int
  nbf :: int
  exp :: int
  jti :: string
  file_encryption_key :: "string option"

text \<open>
  What a call can observe of, and do to, the world outside the program.  The three
  functions of jsonwebtoken and the server behind axios are not code of this library:
  they are parameters, and every theorem below holds for all of them.
  \<^item> \<open>decode t\<close> is \<^verbatim>\<open>jsonwebtoken.decode(t)\<close>, \<open>None\<close> for \<^verbatim>\<open>null\<close>;
  \<^item> \<open>verify t key ms\<close> tells whether \<^verbatim>\<open>jsonwebtoken.verify(t, key)\<close> returns (rather than
    throws) when the clock reads \<open>ms\<close>;
  \<^item> \<open>sign p key\<close> is \<^verbatim>\<open>jsonwebtoken.sign(p, key)\<close>;
  \<^item> \<open>http r\<close> is the outcome of the request \<open>r\<close>: the rejection axios throws, or the
    response it resolves with;
  \<^item> \<open>object_prototype k v\<close> is the outcome of \<^verbatim>\<open>o[k](v?.[k])\<close> for a plain object \<^verbatim>\<open>o\<close> and
    the name \<open>k\<close> of a property that \<^verbatim>\<open>o\<close> inherits: what the call throws, or returns;
  \<^item> \<open>now\<close> is \<^verbatim>\<open>Date.now()\<close>, in milliseconds, read once per call.
\<close>

record env =
  decode :: "jsval \<Rightarrow> JWTPayloadProps option"
  verify :: "jsval \<Rightarrow> jsval \<Rightarrow> int \<Rightarrow> bool"
  sign :: "JWTPayloadProps \<Rightarrow> jsval \<Rightarrow> string"
  http :: "request \<Rightarrow> js_error + response"
  object_prototype :: "string \<Rightarrow> jsval \<Rightarrow> js_error + jsval"
  now :: int

text \<open>
  What a call did, in order: the schemas it ran (by name, with the input), the tokens it
  signed, the requests it sent.
\<close>

datatype event =
    Parsed string jsval
  | Signed JWTPayloadProps jsval
  | Sent request

text \<open>
  \<^verbatim>\<open>catch (error) { classifyError(error); }\<close> at the end of an \<^verbatim>\<open>async\<close> method: the
  method rejects with what \<^verbatim>\<open>classifyError\<close> throws, and would resolve with \<^verbatim>\<open>undefined\<close> if
  it returned.
\<close>

definition catch_classify :: "js_error \<Rightarrow> js_error + jsval" where
  "catch_classify error = (case classifyError error of Inl e \<Rightarrow> Inl e | Inr u \<Rightarrow> Inr JUndefined)"

section \<open>The schemas (zod)\<close>

text \<open>
  A schema is a function from the input to \<open>Some\<close> parsed value, or \<open>None\<close> when zod
  throws a \<^verbatim>\<open>ZodError\<close>.
\<close>

type_synonym schema = "jsval \<Rightarrow> jsval option"

text \<open>\<^verbatim>\<open>z.string()\<close>, \<^verbatim>\<open>z.number()\<close>, \<^verbatim>\<open>z.boolean()\<close>\<close>

fun z_string :: schema where
  "z_string (JStr s) = Some (JStr s)"
| "z_string v = None"

fun z_number :: schema where
  "z_number (JNum n) = Some (JNum n)"
| "z_number v = None"

fun z_boolean :: schema where
  "z_boolean (JBool b) = Some (JBool b)"
| "z_boolean v = None"

text \<open>\<^verbatim>\<open>z.enum([...])\<close>\<close>

definition z_enum :: "string list \<Rightarrow> schema" where
  "z_enum names v = (case v of JStr s \<Rightarrow> (if s \<in> set names then Some v else None) | _ \<Rightarrow> None)"

text \<open>\<^verbatim>\<open>.optional()\<close>, \<^verbatim>\<open>.nullable()\<close>, \<^verbatim>\<open>.default(d)\<close>, \<^verbatim>\<open>.refine(p)\<close>, \<^verbatim>\<open>.or(t)\<close>\<close>

definition z_optional :: "schema \<Rightarrow> schema" where
  "z_optional t v = (if v = JUndefined then Some JUndefined else t v)"

definition z_nullable :: "schema \<Rightarrow> schema" where
  "z_nullable t v = (if v = JNull then Some JNull else t v)"

definition z_default :: "jsval \<Rightarrow> schema \<Rightarrow> schema" where
  "z_default d t v = (if v = JUndefined then t d else t v)"

definition z_refine :: "(jsval \<Rightarrow> bool) \<Rightarrow> schema \<Rightarrow> schema" where
  "z_refine p t v = (case t v of Some u \<Rightarrow> (if p u then Some u else None) | None \<Rightarrow> None)"

definition z_or :: "schema \<Rightarrow> schema \<Rightarrow> schema" where
  "z_or t u v = (case t v of Some r \<Rightarrow> Some r | None \<Rightarrow> u v)"

text \<open>\<^verbatim>\<open>z.string().length(n)\<close>, \<^verbatim>\<open>z.number().min(a).max(b)\<close>\<close>

definition z_string_length :: "nat \<Rightarrow> schema" where
  "z_string_length n v = (case v of JStr s \<Rightarrow> (if length s = n then Some v else None) | _ \<Rightarrow> None)"

definition z_number_min_max :: "int \<Rightarrow> int \<Rightarrow> schema" where
  "z_number_min_max a b v =
     (case v of JNum n \<Rightarrow> (if a \<le> n \<and> n \<le> b then Some v else None) | _ \<Rightarrow> None)"

text \<open>
  \<^verbatim>\<open>z.object({...})\<close>: the input has to be an object; every key of the shape is parsed
  from the input's property of that name; unknown keys are dropped; a key is in the
  result when its parsed value is not \<^verbatim>\<open>undefined\<close> or the input has the key.
\<close>

fun z_fields :: "(string \<times> schema) list \<Rightarrow> jsval \<Rightarrow> (string \<times> jsval) list option" where
  "z_fields [] v = Some []"
| "z_fields ((k, t) # shape) v =
     (case t (get_prop v k) of
        None \<Rightarrow> None
      | Some u \<Rightarrow>
          (case z_fields shape v of
             None \<Rightarrow> None
           | Some rest \<Rightarrow> Some (if u \<noteq> JUndefined \<or> has_prop v k then (k, u) # rest else rest)))"

definition z_object :: "(string \<times> schema) list \<Rightarrow> schema" where
  "z_object shape v =
     (case v of JObj kvs \<Rightarrow> map_option JObj (z_fields shape v) | _ \<Rightarrow> None)"

text \<open>\<^verbatim>\<open>z.array(t).min(n)\<close>\<close>

fun z_elements :: "schema \<Rightarrow> jsval list \<Rightarrow> jsval list option" where
  "z_elements t [] = Some []"
| "z_elements t (x # xs) =
     (case t x of
        None \<Rightarrow> None
      | Some u \<Rightarrow> (case z_elements t xs of None \<Rightarrow> None | Some us \<Rightarrow> Some (u # us)))"

definition z_array_min :: "schema \<Rightarrow> nat \<Rightarrow> schema" where
  "z_array_min t n v =
     (case v of
        JArr xs \<Rightarrow> (if n \<le> length xs then map_option JArr (z_elements t xs) else None)
      | _ \<Rightarrow> None)"

subsection \<open>schema/Task.js\<close>

text \<open>
  The options of \<^verbatim>\<open>start\<close>, \<^verbatim>\<open>download\<close>, \<^verbatim>\<open>details\<close> and \<^verbatim>\<open>delete\<close> are four schemas of
  the same shape, \<^verbatim>\<open>z.object({ debug: z.boolean().optional() })\<close>.
\<close>

definition TaskStartGenericOptions :: schema where
  "TaskStartGenericOptions = z_object [(''debug'', z_optional z_boolean)]"

definition TaskDownloadGenericOptions :: schema where
  "TaskDownloadGenericOptions = z_object [(''debug'', z_optional z_boolean)]"

definition TaskDetailsGenericOptions :: schema where
  "TaskDetailsGenericOptions = z_object [(''debug'', z_optional z_boolean)]"

definition TaskDeleteGenericOptions :: schema where
  "TaskDeleteGenericOptions = z_object [(''debug'', z_optional z_boolean)]"

definition TaskAddFileGenericOptions :: schema where
  "TaskAddFileGenericOptions =
     z_object [(''cloud_file'', z_string), (''debug'', z_optional z_boolean)]"

definition TaskRemoveFileGenericOptions :: schema where
  "TaskRemoveFileGenericOptions =
     z_object [(''server_filename'', z_string), (''debug'', z_optional z_boolean)]"

definition z_encryption_key :: schema where
  "z_encryption_key =
     z_optional (z_or (z_or (z_string_length 16) (z_string_length 24)) (z_string_length 32))"

definition TaskProcessGenericOptions :: schema where
  "TaskProcessGenericOptions =
     z_object
       [(''ignore_errors'', z_default (JBool True) (z_optional z_boolean)),
        (''output_filename'', z_optional z_string),
        (''packaged_filename'', z_optional z_string),
        (''file_encryption_key'', z_encryption_key),
        (''try_image_repair'', z_default (JBool True) (z_optional z_boolean)),
        (''custom_int'', z_optional z_number),
        (''custom_string'', z_optional z_string),
        (''webhook'', z_optional z_string),
        (''debug'', z_optional z_boolean)]"

definition TaskProcessConvertImageOptions :: schema where
  "TaskProcessConvertImageOptions =
     z_optional
       (z_object
          [(''to'', z_default (JStr ''jpg'')
                     (z_optional (z_enum [''jpg'', ''png'', ''gif'', ''gif_animation'', ''heic'']))),
           (''gif_time'', z_default (JNum 50) (z_optional z_number)),
           (''gif_loop'', z_default (JBool True) (z_optional z_boolean))])"

text \<open>\<^verbatim>\<open>multiplier: z.number().refine((val) => [2, 4].includes(val))\<close>\<close>

definition TaskProcessUpscaleImageOptions :: schema where
  "TaskProcessUpscaleImageOptions =
     z_object [(''multiplier'', z_refine (\<lambda>val. val \<in> set [JNum 2, JNum 4]) z_number)]"

definition TaskProcessWatermarkImageElementsProps :: schema where
  "TaskProcessWatermarkImageElementsProps =
     z_refine
       (\<lambda>data.
          if get_prop data ''type'' = JStr ''text'' then truthy (get_prop data ''text'')
          else if get_prop data ''type'' = JStr ''image'' then truthy (get_prop data ''image'')
          else True)
       (z_object
          [(''type'', z_enum [''image'', ''text'']),
           (''text'', z_optional z_string),
           (''image'', z_optional z_string),
           (''gravity'', z_default (JStr ''Center'')
              (z_optional (z_enum [''North'', ''NorthEast'', ''NorthWest'', ''Center'',
                 ''CenterEast'', ''CenterWest'', ''East'', ''West'', ''South'', ''SouthEast'',
                 ''SouthWest'']))),
           (''vertical_adjustment_percent'', z_default (JNum 0) (z_optional z_number)),
           (''horizontal_adjustment_percent'', z_default (JNum 0) (z_optional z_number)),
           (''rotation'', z_default (JNum 0) (z_optional (z_number_min_max 0 360))),
           (''font_family'', z_default (JStr ''Arial'')
              (z_optional (z_enum [''Arial'', ''Arial Unicode MS'', ''Verdana'', ''Courier'',
                 ''Times New Roman'', ''Comic Sans MS'', ''WenQuanYi Zen Hei'',
                 ''Lohit Marathi'']))),
           (''font_style'', z_default JNull
              (z_optional (z_nullable (z_enum [''Bold'', ''Italic''])))),
           (''font_size'', z_default (JNum 14) (z_optional z_number)),
           (''font_color'', z_default (JStr ''#000000'') (z_optional z_string)),
           (''transparency'', z_default (JNum 100) (z_optional (z_number_min_max 1 100))),
           (''mosaic'', z_default (JBool False) (z_optional z_boolean))])"

definition TaskProcessWatermarkImageOptions :: schema where
  "TaskProcessWatermarkImageOptions =
     z_object [(''elements'', z_array_min TaskProcessWatermarkImageElementsProps 1)]"

subsection \<open>schema/Auth.js\<close>

record SelfSignedTokenOptions =
  opt_iss :: string
  opt_age :: int
  opt_file_encryption_key :: "string option"

text \<open>\<^verbatim>\<open>SelfSignedTokenOptions.parse(params)\<close>, with the parsed object read into a record.\<close>

definition SelfSignedTokenOptions_schema :: schema where
  "SelfSignedTokenOptions_schema =
     z_object
       [(''iss'', z_default (JStr ''api.ilovepdf.com'') (z_optional z_string)),
        (''age'', z_default (JNum 3600) (z_optional z_number)),
        (''file_encryption_key'', z_encryption_key)]"

definition SelfSignedTokenOptions_parse :: "jsval \<Rightarrow> SelfSignedTokenOptions option" where
  "SelfSignedTokenOptions_parse params =
     (case SelfSignedTokenOptions_schema params of
        None \<Rightarrow> None
      | Some v \<Rightarrow>
          Some \<lparr>opt_iss = js_to_string (get_prop v ''iss''),
                opt_age = (case get_prop v ''age'' of JNum n \<Rightarrow> n | _ \<Rightarrow> 0),
                opt_file_encryption_key =
                  (case get_prop v ''file_encryption_key'' of JStr k \<Rightarrow> Some k | _ \<Rightarrow> None)\<rparr>)"

section \<open>Auth.js\<close>

text \<open>
  The fields of an \<^verbatim>\<open>Auth\<close> instance.  \<^verbatim>\<open>token\<close> is \<^verbatim>\<open>undefined\<close> until a token is cached.
  \<^verbatim>\<open>secretKey\<close> is kept as the constructor received it: a string, or any falsy value.
\<close>

record Auth =
  token :: jsval
  publicKey :: string
  secretKey :: jsval
  axiosInstance :: axios_instance
  tokenOptions :: SelfSignedTokenOptions

definition ILOVEIMG_API_URL :: string where
  "ILOVEIMG_API_URL = ''api.ilovepdf.com''"

definition ILOVEIMG_API_URL_PROTOCOL :: string where
  "ILOVEIMG_API_URL_PROTOCOL = ''https''"

definition ILOVEIMG_API_VERSION :: string where
  "ILOVEIMG_API_VERSION = ''v1''"

definition TIME_DELAY :: int where
  "TIME_DELAY = 30"

text \<open>\<^verbatim>\<open>typeof v !== 'string'\<close>\<close>

fun not_string :: "jsval \<Rightarrow> bool" where
  "not_string (JStr s) = False"
| "not_string v = True"

text \<open>A parameter with a default value: the default replaces \<^verbatim>\<open>undefined\<close>.\<close>

definition default_arg :: "jsval \<Rightarrow> jsval \<Rightarrow> jsval" where
  "default_arg v d = (if v = JUndefined then d else v)"

text \<open>\<^verbatim>\<open>new Auth(publicKey, secretKey = '', params = {})\<close>\<close>

definition Auth_new :: "jsval \<Rightarrow> jsval \<Rightarrow> jsval \<Rightarrow> js_error + Auth" where
  "Auth_new publicKey_arg secretKey_arg params_arg =
     (let secretKey = default_arg secretKey_arg (JStr []);
          params = default_arg params_arg (JObj [])
      in if \<not> truthy publicKey_arg \<or> not_string publicKey_arg then
           Inl (Error ''publicKey is required and must be a string.'')
         else if truthy secretKey \<and> not_string secretKey then
           Inl (Error ''secretKey must be a string.'')
         else
           (case SelfSignedTokenOptions_parse params of
              None \<Rightarrow> Inl ZodError
            | Some opts \<Rightarrow>
                Inr \<lparr>token = JUndefined,
                     publicKey = js_to_string publicKey_arg,
                     secretKey = secretKey,
                     axiosInstance =
                       \<lparr>baseURL = ILOVEIMG_API_URL_PROTOCOL @ ''://'' @ ILOVEIMG_API_URL @ ''/''
                                     @ ILOVEIMG_API_VERSION,
                        Authorization = None\<rparr>,
                     tokenOptions = opts\<rparr>))"

text \<open>
  What \<^verbatim>\<open>verifyToken()\<close> returns: the decoded payload (\<open>None\<close> for \<^verbatim>\<open>null\<close>), or the value of
  \<^verbatim>\<open>this.token\<close>.
\<close>

datatype verified = Decoded "JWTPayloadProps option" | TokenField jsval

text \<open>
  \<^verbatim>\<open>verifyToken()\<close>.  Everything \<^verbatim>\<open>try\<close> can throw ends in the \<^verbatim>\<open>catch\<close> that resets the
  token: \<^verbatim>\<open>jsonwebtoken.verify\<close> failing, \<^verbatim>\<open>decoded.exp\<close> on a \<^verbatim>\<open>null\<close> payload, and the
  \<^verbatim>\<open>Error('Token is expired.')\<close> of the branch without secret key.
\<close>

definition verifyToken :: "env \<Rightarrow> Auth \<Rightarrow> verified \<times> Auth" where
  "verifyToken w a =
     (if truthy (token a) then
        (let decoded = decode w (token a) in
           if truthy (secretKey a) then
             (if verify w (token a) (secretKey a) (now w) then (Decoded decoded, a)
              else (TokenField JUndefined, a\<lparr>token := JUndefined\<rparr>))
           else
             (case decoded of
                None \<Rightarrow> (TokenField JUndefined, a\<lparr>token := JUndefined\<rparr>)
              | Some payload \<Rightarrow>
                  (let timeNow = now w div 1000;
                       isExpired = (timeNow > exp payload)
                   in if isExpired then (TokenField JUndefined, a\<lparr>token := JUndefined\<rparr>)
                      else (Decoded decoded, a))))
      else (TokenField (token a), a))"

text \<open>
  The private \<^verbatim>\<open>#getTokenFromServer()\<close>.  Reading \<^verbatim>\<open>response.data.token\<close> throws a
  \<^verbatim>\<open>TypeError\<close> when \<^verbatim>\<open>response.data\<close> is \<^verbatim>\<open>undefined\<close> or \<^verbatim>\<open>null\<close>.
\<close>

definition getTokenFromServer :: "env \<Rightarrow> Auth \<Rightarrow> (js_error + jsval) \<times> Auth \<times> event list" where
  "getTokenFromServer w a =
     (let req = Request (axiosInstance a) POST ''/auth''
                  (JObj [(''public_key'', JStr (publicKey a))])
      in case http w req of
           Inl error \<Rightarrow> (catch_classify error, a, [Sent req])
         | Inr response \<Rightarrow>
             if data response = JUndefined \<or> data response = JNull then
               (catch_classify
                  (TypeError (''Cannot read properties of '' @ js_to_string (data response)
                     @ '' (reading 'token')'')), a, [Sent req])
             else if \<not> truthy (get_prop (data response) ''token'') then
               (catch_classify (Error ''Auth token cannot be retrieved''), a, [Sent req])
             else
               (Inr (get_prop (data response) ''token''),
                a\<lparr>token := get_prop (data response) ''token''\<rparr>, [Sent req]))"

text \<open>The private \<^verbatim>\<open>#getTokenLocally()\<close>.\<close>

definition getTokenLocally :: "env \<Rightarrow> Auth \<Rightarrow> (js_error + jsval) \<times> Auth \<times> event list" where
  "getTokenLocally w a =
     (let timeNow = now w div 1000;
          payload =
            \<lparr>iss = opt_iss (tokenOptions a),
             iat = timeNow - TIME_DELAY,
             nbf = timeNow - TIME_DELAY,
             exp = timeNow + opt_age (tokenOptions a),
             jti = publicKey a,
             file_encryption_key = opt_file_encryption_key (tokenOptions a)\<rparr>;
          signed = JStr (sign w payload (secretKey a))
      in (Inr signed, a\<lparr>token := signed\<rparr>, [Signed payload (secretKey a)]))"

text \<open>
  \<^verbatim>\<open>getToken()\<close>.  \<^verbatim>\<open>this.token = await tokenPromise\<close> stores what the chosen helper
  resolved with; when the helper rejects, so does \<^verbatim>\<open>getToken\<close>.
\<close>

definition getToken :: "env \<Rightarrow> Auth \<Rightarrow> (js_error + jsval) \<times> Auth \<times> event list" where
  "getToken w a =
     (let a1 = snd (verifyToken w a)
      in if truthy (token a1) then (Inr (token a1), a1, [])
         else
           (case (if truthy (secretKey a1) then getTokenLocally w a1
                  else getTokenFromServer w a1) of
              (Inl error, a2, events) \<Rightarrow> (Inl error, a2, events)
            | (Inr t, a2, events) \<Rightarrow> (Inr t, a2\<lparr>token := t\<rparr>, events)))"

section \<open>util/task.util.js\<close>

text \<open>The names of the properties that every plain object inherits.\<close>

definition inherited_names :: "string list" where
  "inherited_names =
     [''constructor'', ''hasOwnProperty'', ''isPrototypeOf'', ''propertyIsEnumerable'',
      ''toLocaleString'', ''toString'', ''valueOf'', ''__proto__'', ''__defineGetter__'',
      ''__defineSetter__'', ''__lookupGetter__'', ''__lookupSetter__'']"

text \<open>
  \<^verbatim>\<open>validateProcessToolOptions(tool, options)\<close>.  The table \<^verbatim>\<open>toolValidators\<close> has four own
  keys and is read at the property key of \<^verbatim>\<open>tool\<close>, which is also the key read from
  \<^verbatim>\<open>options\<close>.  At an inherited name the lookup finds the property of \<^verbatim>\<open>Object.prototype\<close>,
  which is truthy, and the function goes on to call it: the outcome is the world's.
\<close>

definition validateProcessToolOptions :: "env \<Rightarrow> jsval \<Rightarrow> jsval \<Rightarrow> js_error + jsval" where
  "validateProcessToolOptions w tool_arg options =
     (let key = js_to_string tool_arg;
          parsed = (\<lambda>r. case r of None \<Rightarrow> Inl ZodError | Some v \<Rightarrow> Inr v)
      in if key = ''convertimage'' then
           parsed (TaskProcessConvertImageOptions (get_prop_opt options key))
         else if key = ''removebackgroundimage'' then Inr (JObj [])
         else if key = ''upscaleimage'' then
           parsed (TaskProcessUpscaleImageOptions (get_prop_opt options key))
         else if key = ''watermarkimage'' then
           parsed (TaskProcessWatermarkImageOptions (get_prop_opt options key))
         else if key \<in> set inherited_names then object_prototype w key options
         else Inl (Error (''Unsupported tool: '' @ key)))"

section \<open>TaskI.js\<close>

text \<open>
  What \<^verbatim>\<open>#server\<close> holds: an axios instance, or any other value (\<^verbatim>\<open>undefined\<close> at
  construction; the setter stores what it is given).  What \<^verbatim>\<open>#files\<close> holds: an array,
  by reference, or any other value.  The arrays live in a store that the task carries
  along: \<open>arrays\<close> gives the elements of the array at each address, \<open>fresh\<close> is the next
  unused address.  Whoever holds the address of an array can change its elements.
  The \<^verbatim>\<open>Auth\<close> instance is held by reference in the source; the model of one task
  carries its state along.
\<close>

datatype server_value = Instance axios_instance | NotInstance jsval

type_synonym addr = nat

datatype files_value = ArrayAt addr | NotArray jsval

record TaskI =
  auth :: Auth
  fixed_server :: axios_instance
  tool :: jsval
  task_id :: jsval
  remaining_files :: jsval
  files :: files_value
  server :: server_value
  arrays :: "addr \<Rightarrow> jsval list"
  fresh :: addr

text \<open>Truthiness of the two fields: an instance and an array are objects.\<close>

fun truthy_server :: "server_value \<Rightarrow> bool" where
  "truthy_server (Instance srv) = True"
| "truthy_server (NotInstance v) = truthy v"

fun truthy_files :: "files_value \<Rightarrow> bool" where
  "truthy_files (ArrayAt a) = True"
| "truthy_files (NotArray v) = truthy v"

text \<open>\<^verbatim>\<open>new TaskI(auth, fixedServer, taskType)\<close>, in a store that holds no array yet.\<close>

definition TaskI_new :: "Auth \<Rightarrow> axios_instance \<Rightarrow> jsval \<Rightarrow> TaskI" where
  "TaskI_new a fixedServer taskType =
     \<lparr>auth = a, fixed_server = fixedServer, tool = taskType, task_id = JUndefined,
      remaining_files = JUndefined, files = NotArray JUndefined,
      server = NotInstance JUndefined, arrays = (\<lambda>a. []), fresh = 0\<rparr>"

text \<open>What a method resolves with: a plain value, or the axios response itself.\<close>

datatype js_result = Value jsval | AxiosResponse response

text \<open>
  The own enumerable properties that \<^verbatim>\<open>{ ...v }\<close> copies: those of an object, the
  elements of an array and the characters of a string under their indices, none of
  any other value.  Then \<^verbatim>\<open>{ ...base, ...v }\<close>.
\<close>

fun props :: "jsval \<Rightarrow> (string \<times> jsval) list" where
  "props (JObj kvs) = kvs"
| "props (JArr xs) = zip (map string_of_nat [0..<length xs]) xs"
| "props (JStr cs) = zip (map string_of_nat [0..<length cs]) (map (\<lambda>c. JStr [c]) cs)"
| "props v = []"

fun obj_set :: "(string \<times> jsval) list \<Rightarrow> string \<Rightarrow> jsval \<Rightarrow> (string \<times> jsval) list" where
  "obj_set [] k v = [(k, v)]"
| "obj_set ((k', v') # kvs) k v = (if k' = k then (k, v) # kvs else (k', v') # obj_set kvs k v)"

definition spread :: "(string \<times> jsval) list \<Rightarrow> jsval \<Rightarrow> (string \<times> jsval) list" where
  "spread base v = foldl (\<lambda>acc (k, x). obj_set acc k x) base (props v)"

definition precondition_start :: js_error where
  "precondition_start =
     Error ''You need to retrieve task id and assigned server first using start() method.''"

definition precondition_files :: js_error where
  "precondition_files = Error ''You need to add files first using addFile() method.''"

text \<open>
  \<^verbatim>\<open>this.#server.post(...)\<close>, \<^verbatim>\<open>.get(...)\<close> and \<^verbatim>\<open>.delete(...)\<close> inside \<^verbatim>\<open>try\<close>: the request goes
  through an instance; on any other truthy value the method is not a function, and
  the \<^verbatim>\<open>TypeError\<close> of the call is what \<^verbatim>\<open>catch\<close> receives.
\<close>

definition server_call ::
  "env \<Rightarrow> server_value \<Rightarrow> http_method \<Rightarrow> string \<Rightarrow> jsval \<Rightarrow> (js_error + response) \<times> event list" where
  "server_call w srv m url body =
     (case srv of
        Instance i \<Rightarrow> (http w (Request i m url body), [Sent (Request i m url body)])
      | NotInstance v \<Rightarrow>
          (Inl (TypeError (''this.#server.''
                  @ (case m of GET \<Rightarrow> ''get'' | POST \<Rightarrow> ''post'' | DELETE \<Rightarrow> ''delete'')
                  @ '' is not a function'')), []))"

text \<open>\<^verbatim>\<open>async start(options = {})\<close>\<close>

definition start :: "env \<Rightarrow> jsval \<Rightarrow> TaskI \<Rightarrow> (js_error + jsval) \<times> TaskI \<times> event list" where
  "start w options_arg s =
     (let options = default_arg options_arg (JObj []);
          parsing = [Parsed ''TaskStartGenericOptions'' options]
      in case TaskStartGenericOptions options of
           None \<Rightarrow> (Inl ZodError, s, parsing)
         | Some validatedOptions \<Rightarrow>
             (let isDebug = truthy (get_prop_opt validatedOptions ''debug'')
              in case getToken w (auth s) of
                   (Inl error, a, signing) \<Rightarrow>
                     (catch_classify error, s\<lparr>auth := a\<rparr>, parsing @ signing)
                 | (Inr t, a, signing) \<Rightarrow>
                     (let fixed = (fixed_server s)\<lparr>Authorization := Some (''Bearer '' @ js_to_string t)\<rparr>;
                          s1 = s\<lparr>auth := a, fixed_server := fixed\<rparr>;
                          req = Request fixed GET
                                  (if isDebug then ''/start/'' @ js_to_string (tool s) @ ''?debug=true''
                                   else ''/start/'' @ js_to_string (tool s))
                                  JUndefined;
                          events = parsing @ signing @ [Sent req]
                      in case http w req of
                           Inl error \<Rightarrow> (catch_classify error, s1, events)
                         | Inr response \<Rightarrow>
                             if \<not> isDebug then
                               (if \<not> truthy (data response) \<or>
                                   \<not> truthy (get_prop (data response) ''server'') \<or>
                                   \<not> truthy (get_prop (data response) ''task'') \<or>
                                   \<not> truthy (get_prop (data response) ''remaining_files'') then
                                  (catch_classify (Error ''Invalid response: missing required fields''),
                                   s1, events)
                                else
                                  (Inr (JObj
                                     [(''server'', get_prop (data response) ''server''),
                                      (''task_id'', get_prop (data response) ''task''),
                                      (''remaining_files'', get_prop (data response) ''remaining_files'')]),
                                   s1\<lparr>server :=
                                        Instance \<lparr>baseURL = ILOVEIMG_API_URL_PROTOCOL @ ''://''
                                                 @ js_to_string (get_prop (data response) ''server'')
                                                 @ ''/'' @ ILOVEIMG_API_VERSION,
                                              Authorization = Some (''Bearer '' @ js_to_string t)\<rparr>,
                                      task_id := get_prop (data response) ''task'',
                                      remaining_files := get_prop (data response) ''remaining_files'',
                                      files := ArrayAt (fresh s),
                                      arrays := (arrays s)(fresh s := []),
                                      fresh := Suc (fresh s)\<rparr>,
                                   events))
                             else (Inr (data response), s1, events))))"

text \<open>\<^verbatim>\<open>async addFile(options)\<close>\<close>

definition addFile :: "env \<Rightarrow> jsval \<Rightarrow> TaskI \<Rightarrow> (js_error + jsval) \<times> TaskI \<times> event list" where
  "addFile w options s =
     (if \<not> truthy (task_id s) \<or> \<not> truthy_server (server s) then (Inl precondition_start, s, [])
      else
        (let parsing = [Parsed ''TaskAddFileGenericOptions'' options]
         in case TaskAddFileGenericOptions options of
              None \<Rightarrow> (Inl ZodError, s, parsing)
            | Some vOptions \<Rightarrow>
                (case server_call w (server s) POST ''/upload''
                        (JObj (spread [(''task'', task_id s)] vOptions)) of
                   (Inl error, sent) \<Rightarrow> (catch_classify error, s, parsing @ sent)
                 | (Inr response, sent) \<Rightarrow> (Inr (data response), s, parsing @ sent))))"

text \<open>\<^verbatim>\<open>async deleteFile(options)\<close>\<close>

definition deleteFile :: "env \<Rightarrow> jsval \<Rightarrow> TaskI \<Rightarrow> (js_error + jsval) \<times> TaskI \<times> event list" where
  "deleteFile w options s =
     (if \<not> truthy (task_id s) \<or> \<not> truthy_server (server s) then (Inl precondition_start, s, [])
      else
        (let parsing = [Parsed ''TaskRemoveFileGenericOptions'' options]
         in case TaskRemoveFileGenericOptions options of
              None \<Rightarrow> (Inl ZodError, s, parsing)
            | Some vOptions \<Rightarrow>
                (let isDebug = truthy (get_prop_opt vOptions ''debug'')
                 in case server_call w (server s) DELETE ''/upload''
                           (JObj (spread [(''task'', task_id s)] vOptions)) of
                      (Inl error, sent) \<Rightarrow> (catch_classify error, s, parsing @ sent)
                    | (Inr response, sent) \<Rightarrow>
                        (Inr (if isDebug then data response else JUndefined), s,
                         parsing @ sent))))"

text \<open>
  \<^verbatim>\<open>Array.isArray(this.#files) && this.#files.length\<close>, as a truth value, and the value
  that \<^verbatim>\<open>files: this.#files\<close> puts in a request.
\<close>

definition nonempty_files :: "TaskI \<Rightarrow> bool" where
  "nonempty_files s = (case files s of ArrayAt a \<Rightarrow> arrays s a \<noteq> [] | NotArray v \<Rightarrow> False)"

definition files_data :: "TaskI \<Rightarrow> files_value \<Rightarrow> jsval" where
  "files_data s f = (case f of ArrayAt a \<Rightarrow> JArr (arrays s a) | NotArray v \<Rightarrow> v)"

text \<open>\<^verbatim>\<open>async process(options = {}, toolOptions = {})\<close>\<close>

definition process :: "env \<Rightarrow> jsval \<Rightarrow> jsval \<Rightarrow> TaskI \<Rightarrow> (js_error + jsval) \<times> TaskI \<times> event list" where
  "process w options_arg toolOptions_arg s =
     (let options = default_arg options_arg (JObj []);
          toolOptions = default_arg toolOptions_arg (JObj [])
      in if \<not> truthy (task_id s) \<or> \<not> truthy_server (server s) then
           (Inl precondition_start, s, [])
         else if \<not> nonempty_files s then (Inl precondition_files, s, [])
         else
           (let parsing = [Parsed ''TaskProcessGenericOptions'' options]
            in case TaskProcessGenericOptions options of
                 None \<Rightarrow> (Inl ZodError, s, parsing)
               | Some vOptions \<Rightarrow>
                   (let parsing2 = parsing @ [Parsed ''validateProcessToolOptions'' toolOptions]
                    in case validateProcessToolOptions w (tool s) toolOptions of
                         Inl error \<Rightarrow> (Inl error, s, parsing2)
                       | Inr vToolOptions \<Rightarrow>
                           (case server_call w (server s) POST ''/process''
                                   (JObj (spread
                                      (spread
                                         [(''task'', task_id s), (''tool'', tool s),
                                          (''files'', files_data s (files s))]
                                         vOptions)
                                      vToolOptions)) of
                              (Inl error, sent) \<Rightarrow> (catch_classify error, s, parsing2 @ sent)
                            | (Inr response, sent) \<Rightarrow>
                                (Inr (data response), s, parsing2 @ sent)))))"

text \<open>\<^verbatim>\<open>async download(options = {})\<close>\<close>

definition download :: "env \<Rightarrow> jsval \<Rightarrow> TaskI \<Rightarrow> (js_error + js_result) \<times> TaskI \<times> event list" where
  "download w options_arg s =
     (let options = default_arg options_arg (JObj [])
      in if \<not> truthy (task_id s) \<or> \<not> truthy_server (server s) then
           (Inl precondition_start, s, [])
         else
           (let parsing = [Parsed ''TaskDownloadGenericOptions'' options]
            in case TaskDownloadGenericOptions options of
                 None \<Rightarrow> (Inl ZodError, s, parsing)
               | Some vOptions \<Rightarrow>
                   (let isDebug = truthy (get_prop_opt vOptions ''debug'')
                    in case server_call w (server s) GET
                              (if isDebug then ''/download/'' @ js_to_string (task_id s) @ ''?debug=true''
                               else ''/download/'' @ js_to_string (task_id s))
                              JUndefined of
                         (Inl error, sent) \<Rightarrow>
                           (map_sum id Value (catch_classify error), s, parsing @ sent)
                       | (Inr response, sent) \<Rightarrow>
                           (Inr (if isDebug then Value (data response) else AxiosResponse response),
                            s, parsing @ sent))))"

text \<open>\<^verbatim>\<open>async details(options = {})\<close>\<close>

definition details :: "env \<Rightarrow> jsval \<Rightarrow> TaskI \<Rightarrow> (js_error + jsval) \<times> TaskI \<times> event list" where
  "details w options_arg s =
     (let options = default_arg options_arg (JObj [])
      in if \<not> truthy (task_id s) \<or> \<not> truthy_server (server s) then
           (Inl precondition_start, s, [])
         else
           (let parsing = [Parsed ''TaskDetailsGenericOptions'' options]
            in case TaskDetailsGenericOptions options of
                 None \<Rightarrow> (Inl ZodError, s, parsing)
               | Some vOptions \<Rightarrow>
                   (let isDebug = truthy (get_prop_opt vOptions ''debug'')
                    in case server_call w (server s) GET
                              (if isDebug then ''/task/'' @ js_to_string (task_id s) @ ''?debug=true''
                               else ''/task/'' @ js_to_string (task_id s))
                              JUndefined of
                         (Inl error, sent) \<Rightarrow> (catch_classify error, s, parsing @ sent)
                       | (Inr response, sent) \<Rightarrow> (Inr (data response), s, parsing @ sent))))"

text \<open>\<^verbatim>\<open>async delete(options = {})\<close>\<close>

definition delete :: "env \<Rightarrow> jsval \<Rightarrow> TaskI \<Rightarrow> (js_error + jsval) \<times> TaskI \<times> event list" where
  "delete w options_arg s =
     (let options = default_arg options_arg (JObj [])
      in if \<not> truthy (task_id s) \<or> \<not> truthy_server (server s) then
           (Inl precondition_start, s, [])
         else
           (let parsing = [Parsed ''TaskDeleteGenericOptions'' options]
            in case TaskDeleteGenericOptions options of
                 None \<Rightarrow> (Inl ZodError, s, parsing)
               | Some vOptions \<Rightarrow>
                   (let isDebug = truthy (get_prop_opt vOptions ''debug'')
                    in case server_call w (server s) DELETE
                              (if isDebug then ''/task/'' @ js_to_string (task_id s) @ ''?debug=true''
                               else ''/task/'' @ js_to_string (task_id s))
                              JUndefined of
                         (Inl error, sent) \<Rightarrow> (catch_classify error, s, parsing @ sent)
                       | (Inr response, sent) \<Rightarrow>
                           (Inr (if isDebug then data response else JUndefined), s,
                            parsing @ sent))))"

text \<open>
  The accessors, each \<^verbatim>\<open>return this.#field || undefined\<close>.  \<^verbatim>\<open>getUploadedFiles\<close> and
  \<^verbatim>\<open>getServer\<close> hand out what the field holds: the array itself, not a copy of it.
\<close>

definition getTool :: "TaskI \<Rightarrow> jsval" where
  "getTool s = js_or (tool s) JUndefined"

definition getTaskId :: "TaskI \<Rightarrow> jsval" where
  "getTaskId s = js_or (task_id s) JUndefined"

definition getRemainingFiles :: "TaskI \<Rightarrow> jsval" where
  "getRemainingFiles s = js_or (remaining_files s) JUndefined"

definition getUploadedFiles :: "TaskI \<Rightarrow> files_value" where
  "getUploadedFiles s = (if truthy_files (files s) then files s else NotArray JUndefined)"

definition getServer :: "TaskI \<Rightarrow> server_value" where
  "getServer s = (if truthy_server (server s) then server s else NotInstance JUndefined)"

text \<open>
  The setters for tests (\<^verbatim>\<open>_setTool\<close> and so on), each \<^verbatim>\<open>this.#field = x\<close>.  An array given
  to \<^verbatim>\<open>_setUploadedFiles\<close> is the caller's: it enters the store at a fresh address, which
  the caller holds too.
\<close>

definition setTool :: "jsval \<Rightarrow> TaskI \<Rightarrow> TaskI" where
  "setTool x s = s\<lparr>tool := x\<rparr>"

definition setTaskId :: "jsval \<Rightarrow> TaskI \<Rightarrow> TaskI" where
  "setTaskId x s = s\<lparr>task_id := x\<rparr>"

definition setRemainingFiles :: "jsval \<Rightarrow> TaskI \<Rightarrow> TaskI" where
  "setRemainingFiles x s = s\<lparr>remaining_files := x\<rparr>"

definition setUploadedFiles :: "jsval \<Rightarrow> TaskI \<Rightarrow> TaskI" where
  "setUploadedFiles x s =
     (case x of
        JArr xs \<Rightarrow>
          s\<lparr>files := ArrayAt (fresh s), arrays := (arrays s)(fresh s := xs),
            fresh := Suc (fresh s)\<rparr>
      | _ \<Rightarrow> s\<lparr>files := NotArray x\<rparr>)"

definition setServer :: "server_value \<Rightarrow> TaskI \<Rightarrow> TaskI" where
  "setServer x s = s\<lparr>server := x\<rparr>"

section \<open>Task.js\<close>

record Task =
  task_auth :: Auth
  task_task_id :: string
  task_server :: axios_instance

text \<open>\<^verbatim>\<open>new Task(publicKey, secretKey = '', taskId, taskServer, params = {})\<close>\<close>

definition Task_new :: "jsval \<Rightarrow> jsval \<Rightarrow> jsval \<Rightarrow> jsval \<Rightarrow> jsval \<Rightarrow> js_error + Task" where
  "Task_new publicKey_arg secretKey_arg taskId taskServer params_arg =
     (let secretKey = default_arg secretKey_arg (JStr []);
          params = default_arg params_arg (JObj [])
      in if \<not> truthy taskId \<or> \<not> truthy taskServer \<or> not_string taskId \<or> not_string taskServer then
           Inl (Error ''taskId and taskServer are required and should be string.'')
         else
           (case Auth_new publicKey_arg secretKey params of
              Inl error \<Rightarrow> Inl error
            | Inr a \<Rightarrow>
                Inr \<lparr>task_auth = a,
                     task_task_id = js_to_string taskId,
                     task_server =
                       \<lparr>baseURL = ILOVEIMG_API_URL_PROTOCOL @ ''://'' @ js_to_string taskServer
                                     @ ''/'' @ ILOVEIMG_API_VERSION,
                        Authorization = None\<rparr>\<rparr>))"

section \<open>Notions used to state the properties\<close>

text \<open>
  The message and the code of an \<^verbatim>\<open>ILoveApiError\<close>, read off the body \<open>d\<close> of the response
  in two ways.  \<open>message_and_code_claimed\<close> takes a message when it is a non-empty string;
  \<open>message_and_code\<close> takes it when it is a string with something else than white space
  in it.  Both fall back from \<^verbatim>\<open>d.message\<close> to \<^verbatim>\<open>d.error.message\<close> to the fixed text, and
  take the \<^verbatim>\<open>code\<close> next to the message they use, or \<open>-1\<close> when that is falsy.
\<close>

fun nonempty_string :: "jsval \<Rightarrow> string option" where
  "nonempty_string (JStr s) = (if s \<noteq> [] then Some s else None)"
| "nonempty_string v = None"

fun nonblank_string :: "jsval \<Rightarrow> string option" where
  "nonblank_string (JStr s) = (if \<exists>c \<in> set s. \<not> is_ws c then Some s else None)"
| "nonblank_string v = None"

definition code_or_minus_one :: "jsval \<Rightarrow> jsval" where
  "code_or_minus_one c = (if truthy c then c else JNum (- 1))"

definition message_and_code_claimed :: "jsval \<Rightarrow> string \<times> jsval" where
  "message_and_code_claimed d =
     (case nonempty_string (get_prop d ''message'') of
        Some m \<Rightarrow> (m, code_or_minus_one (get_prop d ''code''))
      | None \<Rightarrow>
          (case nonempty_string (get_prop (get_prop d ''error'') ''message'') of
             Some m \<Rightarrow> (m, code_or_minus_one (get_prop (get_prop d ''error'') ''code''))
           | None \<Rightarrow> (''Unknown API error occurred.'', JNum (- 1))))"

definition message_and_code :: "jsval \<Rightarrow> string \<times> jsval" where
  "message_and_code d =
     (case nonblank_string (get_prop d ''message'') of
        Some m \<Rightarrow> (m, code_or_minus_one (get_prop d ''code''))
      | None \<Rightarrow>
          (case nonblank_string (get_prop (get_prop d ''error'') ''message'') of
             Some m \<Rightarrow> (m, code_or_minus_one (get_prop (get_prop d ''error'') ''code''))
           | None \<Rightarrow> (''Unknown API error occurred.'', JNum (- 1))))"

text \<open>\<^verbatim>\<open>"{msg} (Status: {status}, Code: {code})"\<close>\<close>

definition formatted :: "string \<times> jsval \<Rightarrow> jsval \<Rightarrow> string" where
  "formatted mc st =
     fst mc @ '' (Status: '' @ js_to_string st @ '', Code: '' @ js_to_string (snd mc) @ '')''"

text \<open>
  Sequences of calls: \<open>addFiles\<close> runs \<^verbatim>\<open>addFile\<close> calls one after the other and gives the
  final task when every call resolved; \<open>after_calls\<close> runs any calls of the public
  methods, resolved or rejected, each in a world of its own.
\<close>

fun addFiles :: "(env \<times> jsval) list \<Rightarrow> TaskI \<Rightarrow> TaskI option" where
  "addFiles [] s = Some s"
| "addFiles ((w, options) # calls) s =
     (case addFile w options s of
        (Inl error, s', events) \<Rightarrow> None
      | (Inr r, s', events) \<Rightarrow> addFiles calls s')"

datatype call =
    Start jsval
  | AddFile jsval
  | DeleteFile jsval
  | Process jsval jsval
  | Download jsval
  | Details jsval
  | Delete jsval

fun after_call :: "env \<Rightarrow> call \<Rightarrow> TaskI \<Rightarrow> TaskI" where
  "after_call w (Start options) s = fst (snd (start w options s))"
| "after_call w (AddFile options) s = fst (snd (addFile w options s))"
| "after_call w (DeleteFile options) s = fst (snd (deleteFile w options s))"
| "after_call w (Process options toolOptions) s = fst (snd (process w options toolOptions s))"
| "after_call w (Download options) s = fst (snd (download w options s))"
| "after_call w (Details options) s = fst (snd (details w options s))"
| "after_call w (Delete options) s = fst (snd (delete w options s))"

fun after_calls :: "(env \<times> call) list \<Rightarrow> TaskI \<Rightarrow> TaskI" where
  "after_calls [] s = s"
| "after_calls ((w, c) # calls) s = after_calls calls (after_call w c s)"

text \<open>
  The cached token is within its lifetime: there is one, and it passes the check
  \<^verbatim>\<open>verifyToken\<close> can make of it, which is \<^verbatim>\<open>jsonwebtoken.verify\<close> with the secret key, or,
  without secret key, that the token decodes and the clock is not past its \<^verbatim>\<open>exp\<close>.
\<close>

definition token_in_lifetime :: "env \<Rightarrow> Auth \<Rightarrow> bool" where
  "token_in_lifetime w a =
     (truthy (token a) \<and>
      (if truthy (secretKey a) then verify w (token a) (secretKey a) (now w)
       else (case decode w (token a) of
               None \<Rightarrow> False
             | Some payload \<Rightarrow> now w div 1000 \<le> exp payload)))"

text \<open>The list of uploaded files is unset or empty.\<close>

definition never_filled :: "TaskI \<Rightarrow> bool" where
  "never_filled s = (files s = NotArray JUndefined \<or> files_data s (files s) = JArr [])"

text \<open>
  What a caller can do with the value \<open>r\<close> that \<^verbatim>\<open>getUploadedFiles()\<close> returned:
  \<^verbatim>\<open>r.push(x)\<close>.  On an array it appends \<open>x\<close> to the array at that address; on any other
  value it throws.
\<close>

definition array_push :: "files_value \<Rightarrow> jsval \<Rightarrow> TaskI \<Rightarrow> js_error + TaskI" where
  "array_push r x s =
     (case r of
        ArrayAt a \<Rightarrow> Inr (s\<lparr>arrays := (arrays s)(a := arrays s a @ [x])\<rparr>)
      | NotArray v \<Rightarrow>
          (if v = JUndefined \<or> v = JNull then
             Inl (TypeError (''Cannot read properties of '' @ js_to_string v @ '' (reading 'push')''))
           else Inl (TypeError ''push is not a function'')))"

section \<open>Concrete inputs\<close>

text \<open>
  A rejection by the server with status 400 whose body carries a message of one space.
\<close>

definition blank_message_error :: js_error where
  "blank_message_error =
     AxiosError ''Request failed with status code 400''
       (Some (Response (JNum 400) (JObj [(''message'', JStr '' ''), (''code'', JNum 7)]))) True"

text \<open>
  A project with a secret key, a world whose server accepts every request, and a task
  for \<^verbatim>\<open>upscaleimage\<close>: fresh, started, and with one uploaded file put in by the setter.
\<close>

definition example_payload :: JWTPayloadProps where
  "example_payload =
     \<lparr>iss = ''api.ilovepdf.com'', iat = 1699999970, nbf = 1699999970, exp = 1700003600,
      jti = ''project_public_key'', file_encryption_key = None\<rparr>"

definition example_env :: env where
  "example_env =
     \<lparr>decode = (\<lambda>t. if t = JStr ''cached.jwt'' then Some example_payload else None),
      verify = (\<lambda>t k ms. t = JStr ''cached.jwt'' \<and> k = JStr ''secret'' \<and> ms div 1000 < 1700003600),
      sign = (\<lambda>p k. ''fresh.jwt''),
      http = (\<lambda>r. Inr (Response (JNum 200)
                (JObj [(''server'', JStr ''api8g.iloveimg.com''), (''task'', JStr ''task1''),
                       (''remaining_files'', JNum 2320), (''token'', JStr ''server.jwt''),
                       (''server_filename'', JStr ''abc.jpg'')]))),
      object_prototype = (\<lambda>k v. Inl (TypeError ''validator is not a function'')),
      now = 1700000000000\<rparr>"

definition example_auth :: Auth where
  "example_auth =
     \<lparr>token = JUndefined, publicKey = ''project_public_key'', secretKey = JStr ''secret'',
      axiosInstance = \<lparr>baseURL = ''https://api.ilovepdf.com/v1'', Authorization = None\<rparr>,
      tokenOptions = \<lparr>opt_iss = ''api.ilovepdf.com'', opt_age = 3600,
                      opt_file_encryption_key = None\<rparr>\<rparr>"

definition example_task :: TaskI where
  "example_task =
     TaskI_new example_auth \<lparr>baseURL = ''https://api.ilovepdf.com/v1'', Authorization = None\<rparr>
       (JStr ''upscaleimage'')"

definition started_task :: TaskI where
  "started_task =
     example_task
       \<lparr>auth := example_auth\<lparr>token := JStr ''fresh.jwt''\<rparr>,
        fixed_server := \<lparr>baseURL = ''https://api.ilovepdf.com/v1'',
                         Authorization = Some ''Bearer fresh.jwt''\<rparr>,
        task_id := JStr ''task1'', remaining_files := JNum 2320, files := ArrayAt 0,
        server := Instance \<lparr>baseURL = ''https://api8g.iloveimg.com/v1'',
                             Authorization = Some ''Bearer fresh.jwt''\<rparr>,
        arrays := (\<lambda>a. [])(0 := []), fresh := Suc 0\<rparr>"

definition uploaded_file :: jsval where
  "uploaded_file = JObj [(''server_filename'', JStr ''abc.jpg''), (''filename'', JStr ''lorem.jpg'')]"

definition ready_task :: TaskI where
  "ready_task = setUploadedFiles (JArr [uploaded_file]) started_task"

text \<open>The started task after \<^verbatim>\<open>task.getUploadedFiles().push(file)\<close>.\<close>

definition pushed_task :: TaskI where
  "pushed_task = started_task\<lparr>arrays := (\<lambda>a. [])(0 := [uploaded_file])\<rparr>"

text \<open>The same world with a server that reports no remaining files.\<close>

definition exhausted_env :: env where
  "exhausted_env =
     example_env
       \<lparr>http := (\<lambda>r. Inr (Response (JNum 200)
                   (JObj [(''server'', JStr ''api8g.iloveimg.com''), (''task'', JStr ''task1''),
                          (''remaining_files'', JNum 0)])))\<rparr>"

text \<open>A project without secret key, and the two projects with a token in the cache.\<close>

definition public_auth :: Auth where
  "public_auth = example_auth\<lparr>secretKey := JStr []\<rparr>"

definition cached_auth :: Auth where
  "cached_auth = example_auth\<lparr>token := JStr ''cached.jwt''\<rparr>"

definition cached_public_auth :: Auth where
  "cached_public_auth = public_auth\<lparr>token := JStr ''cached.jwt''\<rparr>"

text \<open>The same world five seconds later, and one second after the token expired.\<close>

definition later_env :: env where
  "later_env = example_env\<lparr>now := 1700000005000\<rparr>"

definition expired_env :: env where
  "expired_env = example_env\<lparr>now := 1700003601000\<rparr>"

section \<open>Properties\<close>

subsection \<open>Facts about values and strings\<close>

lemma dropWhile_all: "(\<forall>x \<in> set (dropWhile P s). P x) \<longleftrightarrow> (\<forall>x \<in> set s. P x)"
  by (induction s) auto

lemma trim_empty_iff: "trim s = [] \<longleftrightarrow> (\<forall>c \<in> set s. is_ws c)"
  unfolding trim_def by (simp add: dropWhile_eq_Nil_conv dropWhile_all)

lemma string_and_trim_nonblank: "string_and_trim v \<longleftrightarrow> nonblank_string v \<noteq> None"
  by (cases v) (auto simp: trim_empty_iff)

lemma nonblank_string_Some: "nonblank_string v = Some m \<Longrightarrow> v = JStr m"
  by (cases v) (auto split: if_splits)

lemma nonblank_falsy: "\<not> truthy v \<Longrightarrow> nonblank_string v = None"
  by (cases v) auto

lemma get_prop_falsy: "\<not> truthy d \<Longrightarrow> get_prop d k = JUndefined"
  by (cases d) auto

lemma get_prop_js_or_empty: "get_prop (js_or d (JObj [])) k = get_prop d k"
  by (cases d) (auto simp: js_or_def)

subsection \<open>classifyError\<close>

lemma classify_response:
  "isAxiosError error \<Longrightarrow> error_response error = Some resp \<Longrightarrow>
   classifyError error =
     Inl (ILoveApiError (formatted (message_and_code (data resp)) (status resp)) (status resp)
            (Some resp) (error_request error))"
  unfolding classifyError_def message_and_code_def formatted_def
  apply (simp add: get_prop_js_or_empty Let_def string_and_trim_nonblank code_or_minus_one_def
      js_or_def split: option.splits)
  apply (auto dest: nonblank_string_Some simp: get_prop_falsy nonblank_falsy)
  done

lemma classify_raises: "\<exists>thrown. classifyError error = Inl thrown"
  unfolding classifyError_def by (simp add: Let_def split: option.splits prod.splits)

lemma classify_not_axios: "\<not> isAxiosError error \<Longrightarrow> classifyError error = Inl error"
  unfolding classifyError_def by simp

lemma catch_classify_raises: "\<exists>thrown. catch_classify error = Inl thrown"
  using classify_raises [of error] by (auto simp: catch_classify_def)

lemma catch_classify_Error: "catch_classify (Error m) = Inl (Error m)"
  by (simp add: catch_classify_def classify_not_axios)

text \<open>
  C2, as stated, fails: a message that is a non-empty string of white space is not used.
  For the body \<^verbatim>\<open>{ message: " ", code: 7 }\<close> and status 400 the claim gives the message
  \<^verbatim>\<open>"  (Status: 400, Code: 7)"\<close>; \<^verbatim>\<open>classifyError\<close> throws an \<^verbatim>\<open>ILoveApiError\<close> with the
  fallback text and the code \<open>-1\<close>.
\<close>

theorem classifyError_blank_message_counterexample:
  "classifyError blank_message_error \<noteq>
     Inl (ILoveApiError
            (formatted (message_and_code_claimed
                          (JObj [(''message'', JStr '' ''), (''code'', JNum 7)])) (JNum 400))
            (JNum 400)
            (Some (Response (JNum 400) (JObj [(''message'', JStr '' ''), (''code'', JNum 7)])))
            True) \<and>
   classifyError blank_message_error =
     Inl (ILoveApiError ''Unknown API error occurred. (Status: 400, Code: -1)'' (JNum 400)
            (Some (Response (JNum 400) (JObj [(''message'', JStr '' ''), (''code'', JNum 7)])))
            True) \<and>
   formatted (message_and_code_claimed
                (JObj [(''message'', JStr '' ''), (''code'', JNum 7)])) (JNum 400) =
     ''  (Status: 400, Code: 7)''"
  unfolding blank_message_error_def
  by (simp add: classifyError_def js_or_def trim_def is_ws_def string_of_int_def
      string_of_magnitude_def string_of_nat.simps message_and_code_claimed_def formatted_def code_or_minus_one_def)

text \<open>
  C2, amended: \<^verbatim>\<open>classifyError\<close> always throws and never returns.  For an axios error
  with a response it throws an \<^verbatim>\<open>ILoveApiError\<close> with the message
  \<^verbatim>\<open>"{msg} (Status: {status}, Code: {code})"\<close>, where \<open>msg\<close> is \<^verbatim>\<open>response.data.message\<close> if that
  is a string that is not blank (not empty after trimming white space), else
  \<^verbatim>\<open>response.data.error.message\<close> if that is such a string, else the fixed text, and
  \<open>code\<close> is the \<^verbatim>\<open>code\<close> next to the message used, or \<open>-1\<close> when that is falsy.  For an
  axios error with no response it throws a \<^verbatim>\<open>NetworkError\<close>, with one message when a
  request was dispatched and another when not.  Every other error is thrown again
  unchanged.
\<close>

theorem classifyError_classification:
  "(\<exists>thrown. classifyError error = Inl thrown) \<and>
   (\<forall>resp. isAxiosError error \<and> error_response error = Some resp \<longrightarrow>
      classifyError error =
        Inl (ILoveApiError (formatted (message_and_code (data resp)) (status resp))
               (status resp) (Some resp) (error_request error))) \<and>
   (isAxiosError error \<and> error_response error = None \<and> error_request error \<longrightarrow>
      classifyError error = Inl (NetworkError ''No response received from the server.'' None True)) \<and>
   (isAxiosError error \<and> error_response error = None \<and> \<not> error_request error \<longrightarrow>
      classifyError error =
        Inl (NetworkError ''An error occurred while setting up the request.'' None False)) \<and>
   (\<not> isAxiosError error \<longrightarrow> classifyError error = Inl error)"
proof -
  have network: "isAxiosError error \<and> error_response error = None \<and> error_request error \<longrightarrow>
      classifyError error = Inl (NetworkError ''No response received from the server.'' None True)"
    unfolding classifyError_def by simp
  have setting_up: "isAxiosError error \<and> error_response error = None \<and> \<not> error_request error \<longrightarrow>
      classifyError error =
        Inl (NetworkError ''An error occurred while setting up the request.'' None False)"
    unfolding classifyError_def by simp
  from classify_raises network setting_up classify_not_axios classify_response
  show ?thesis by blast
qed

theorem classifyError_classification_witness:
  "classifyError
     (AxiosError ''Request failed with status code 404''
        (Some (Response (JNum 404)
           (JObj [(''error'', JObj [(''message'', JStr ''Task not found''), (''code'', JNum 0)])])))
        True) =
     Inl (ILoveApiError ''Task not found (Status: 404, Code: -1)'' (JNum 404)
            (Some (Response (JNum 404)
               (JObj [(''error'', JObj [(''message'', JStr ''Task not found''), (''code'', JNum 0)])])))
            True) \<and>
   classifyError (AxiosError ''timeout of 1000ms exceeded'' None True) =
     Inl (NetworkError ''No response received from the server.'' None True) \<and>
   classifyError (AxiosError ''Invalid URL'' None False) =
     Inl (NetworkError ''An error occurred while setting up the request.'' None False) \<and>
   classifyError (Error ''Auth token cannot be retrieved'') =
     Inl (Error ''Auth token cannot be retrieved'')"
  using
    classifyError_classification
      [of "AxiosError ''Request failed with status code 404''
             (Some (Response (JNum 404)
                (JObj [(''error'', JObj [(''message'', JStr ''Task not found''), (''code'', JNum 0)])])))
             True"]
    classifyError_classification [of "AxiosError ''timeout of 1000ms exceeded'' None True"]
    classifyError_classification [of "AxiosError ''Invalid URL'' None False"]
    classifyError_classification [of "Error ''Auth token cannot be retrieved''"]
  by (simp add: message_and_code_def formatted_def code_or_minus_one_def is_ws_def
      string_of_int_def string_of_magnitude_def string_of_nat.simps)

subsection \<open>The accessors of a task\<close>

text \<open>
  C10: the accessors \<^verbatim>\<open>getTool\<close>, \<^verbatim>\<open>getTaskId\<close>, \<^verbatim>\<open>getRemainingFiles\<close>, \<^verbatim>\<open>getUploadedFiles\<close>
  and \<^verbatim>\<open>getServer\<close> have no failing branch (each is a total function of the fields), and
  each returns \<^verbatim>\<open>undefined\<close> whenever the stored value is falsy, not only when it was
  never set: a \<^verbatim>\<open>remainingFiles\<close> of 0, an empty \<^verbatim>\<open>taskId\<close>, an empty tool, and likewise an
  empty string stored as server or \<^verbatim>\<open>null\<close> stored as uploaded files, are reported as
  \<^verbatim>\<open>undefined\<close>; a truthy stored value is returned as it is.
\<close>

theorem accessors_falsy_undefined:
  "getTool s = (if truthy (tool s) then tool s else JUndefined) \<and>
   getTaskId s = (if truthy (task_id s) then task_id s else JUndefined) \<and>
   getRemainingFiles s = (if truthy (remaining_files s) then remaining_files s else JUndefined) \<and>
   getUploadedFiles s = (if truthy_files (files s) then files s else NotArray JUndefined) \<and>
   getServer s = (if truthy_server (server s) then server s else NotInstance JUndefined) \<and>
   (remaining_files s = JNum 0 \<longrightarrow> getRemainingFiles s = JUndefined) \<and>
   (task_id s = JStr [] \<longrightarrow> getTaskId s = JUndefined) \<and>
   (tool s = JStr [] \<longrightarrow> getTool s = JUndefined) \<and>
   (files s = NotArray JNull \<or> files s = NotArray (JBool False) \<or> files s = NotArray (JNum 0) \<or>
    files s = NotArray (JStr []) \<longrightarrow> getUploadedFiles s = NotArray JUndefined) \<and>
   (server s = NotInstance JNull \<or> server s = NotInstance (JBool False) \<or>
    server s = NotInstance (JNum 0) \<or> server s = NotInstance (JStr []) \<longrightarrow>
      getServer s = NotInstance JUndefined) \<and>
   (server s = Instance i \<longrightarrow> getServer s = Instance i) \<and>
   (server s = NotInstance (JStr (c # cs)) \<longrightarrow> getServer s = NotInstance (JStr (c # cs))) \<and>
   (files s = ArrayAt a \<longrightarrow> getUploadedFiles s = ArrayAt a)"
  by (auto simp: getTool_def getTaskId_def getRemainingFiles_def getUploadedFiles_def
      getServer_def js_or_def)

theorem accessors_falsy_undefined_witness:
  "getRemainingFiles (setRemainingFiles (JNum 0) started_task) = JUndefined \<and>
   getTaskId (setTaskId (JStr []) started_task) = JUndefined \<and>
   getTool (setTool (JStr []) started_task) = JUndefined \<and>
   getServer (setServer (NotInstance (JStr [])) started_task) = NotInstance JUndefined \<and>
   getServer (setServer (NotInstance (JStr ''stubed-server'')) started_task) =
     NotInstance (JStr ''stubed-server'') \<and>
   getUploadedFiles (setUploadedFiles JNull started_task) = NotArray JUndefined \<and>
   getUploadedFiles started_task = ArrayAt 0 \<and>
   getTool started_task = JStr ''upscaleimage'' \<and>
   getServer example_task = NotInstance JUndefined"
  using accessors_falsy_undefined [of "setRemainingFiles (JNum 0) started_task"]
    accessors_falsy_undefined [of "setTaskId (JStr []) started_task"]
    accessors_falsy_undefined [of "setTool (JStr []) started_task"]
    accessors_falsy_undefined [of "setServer (NotInstance (JStr [])) started_task"]
    accessors_falsy_undefined [of "setServer (NotInstance (JStr ''stubed-server'')) started_task"]
    accessors_falsy_undefined [of "setUploadedFiles JNull started_task"]
    accessors_falsy_undefined [of started_task]
    accessors_falsy_undefined [of example_task]
  by (simp add: setRemainingFiles_def setTaskId_def setTool_def setServer_def
      setUploadedFiles_def started_task_def example_task_def TaskI_new_def)

subsection \<open>The constructor of Task\<close>

text \<open>
  C9, as stated, fails: with an invalid \<^verbatim>\<open>publicKey\<close> and a missing \<^verbatim>\<open>taskId\<close> the
  constructor throws the error about \<^verbatim>\<open>taskId\<close> and \<^verbatim>\<open>taskServer\<close>, not the one about
  \<^verbatim>\<open>publicKey\<close>: its own check comes first, \<^verbatim>\<open>new Auth(...)\<close> second.
\<close>

theorem Task_new_order_counterexample:
  "Task_new JUndefined (JStr ''secret'') JUndefined (JStr ''api8g.iloveimg.com'') JUndefined =
     Inl (Error ''taskId and taskServer are required and should be string.'') \<and>
   Task_new JUndefined (JStr ''secret'') JUndefined (JStr ''api8g.iloveimg.com'') JUndefined \<noteq>
     Inl (Error ''publicKey is required and must be a string.'')"
  by (simp add: Task_new_def)

text \<open>
  C9, amended: constructing a \<^verbatim>\<open>Task\<close> with a missing, empty or non-string \<^verbatim>\<open>taskId\<close> or
  \<^verbatim>\<open>taskServer\<close> fails with exactly
  \<^verbatim>\<open>Error("taskId and taskServer are required and should be string.")\<close>, whatever the keys
  are: the check is performed before the checks of \<^verbatim>\<open>publicKey\<close> and \<^verbatim>\<open>secretKey\<close> of the
  internal \<^verbatim>\<open>Auth\<close>.  The error about \<^verbatim>\<open>publicKey\<close> is raised for an invalid \<^verbatim>\<open>publicKey\<close>
  when, and only when, \<^verbatim>\<open>taskId\<close> and \<^verbatim>\<open>taskServer\<close> are both non-empty strings.
\<close>

theorem Task_new_checks:
  "(\<not> truthy taskId \<or> \<not> truthy taskServer \<or> not_string taskId \<or> not_string taskServer \<longrightarrow>
      Task_new publicKey_arg secretKey_arg taskId taskServer params =
        Inl (Error ''taskId and taskServer are required and should be string.'')) \<and>
   (truthy taskId \<and> truthy taskServer \<and> \<not> not_string taskId \<and> \<not> not_string taskServer \<and>
    (\<not> truthy publicKey_arg \<or> not_string publicKey_arg) \<longrightarrow>
      Task_new publicKey_arg secretKey_arg taskId taskServer params =
        Inl (Error ''publicKey is required and must be a string.'')) \<and>
   (Task_new publicKey_arg secretKey_arg taskId taskServer params =
      Inl (Error ''publicKey is required and must be a string.'') \<longrightarrow>
    truthy taskId \<and> truthy taskServer \<and> \<not> not_string taskId \<and> \<not> not_string taskServer)"
  by (auto simp: Task_new_def Auth_new_def Let_def split: option.splits sum.splits if_splits)

theorem Task_new_checks_witness:
  "Task_new JUndefined JUndefined (JStr []) (JStr ''api8g.iloveimg.com'') JUndefined =
     Inl (Error ''taskId and taskServer are required and should be string.'') \<and>
   Task_new (JNum 99) (JStr ''secret'') (JStr ''task1'') (JStr ''api8g.iloveimg.com'') JUndefined =
     Inl (Error ''publicKey is required and must be a string.'')"
  using Task_new_checks [of "JStr []" "JStr ''api8g.iloveimg.com''" JUndefined JUndefined JUndefined]
    Task_new_checks [of "JStr ''task1''" "JStr ''api8g.iloveimg.com''" "JNum 99" "JStr ''secret''" JUndefined]
  by simp

subsection \<open>What the methods of a task do to its fields\<close>

lemma catch_classify_not_Inr [simp]: "catch_classify error \<noteq> Inr r"
  using catch_classify_raises [of error] by auto

lemma addFile_state: "addFile w options s = (r, s', events) \<Longrightarrow> s' = s"
  by (auto simp: addFile_def Let_def split: option.splits sum.splits prod.splits if_splits)

lemma deleteFile_state: "deleteFile w options s = (r, s', events) \<Longrightarrow> s' = s"
  by (auto simp: deleteFile_def Let_def split: option.splits sum.splits prod.splits if_splits)

lemma process_state: "process w options toolOptions s = (r, s', events) \<Longrightarrow> s' = s"
  by (auto simp: process_def Let_def split: option.splits sum.splits prod.splits if_splits)

lemma download_state: "download w options s = (r, s', events) \<Longrightarrow> s' = s"
  by (auto simp: download_def Let_def split: option.splits sum.splits prod.splits if_splits)

lemma details_state: "details w options s = (r, s', events) \<Longrightarrow> s' = s"
  by (auto simp: details_def Let_def split: option.splits sum.splits prod.splits if_splits)

lemma delete_state: "delete w options s = (r, s', events) \<Longrightarrow> s' = s"
  by (auto simp: delete_def Let_def split: option.splits sum.splits prod.splits if_splits)

lemma precondition_start_all:
  assumes "\<not> truthy (task_id s) \<or> \<not> truthy_server (server s)"
  shows "addFile w options s = (Inl precondition_start, s, [])"
    and "deleteFile w options s = (Inl precondition_start, s, [])"
    and "process w options toolOptions s = (Inl precondition_start, s, [])"
    and "download w options s = (Inl precondition_start, s, [])"
    and "details w options s = (Inl precondition_start, s, [])"
    and "delete w options s = (Inl precondition_start, s, [])"
  using assms
  by (auto simp: addFile_def deleteFile_def process_def download_def details_def delete_def
      Let_def)

lemma precondition_files_process:
  assumes "truthy (task_id s)" and "truthy_server (server s)" and "\<not> nonempty_files s"
  shows "process w options toolOptions s = (Inl precondition_files, s, [])"
  using assms by (auto simp: process_def Let_def)

lemma unset_or_empty_files:
  "files s = NotArray JUndefined \<or> files_data s (files s) = JArr [] \<Longrightarrow> \<not> nonempty_files s"
  by (auto simp: nonempty_files_def files_data_def split: files_value.splits)

lemmas eval_defs =
  start_def addFile_def process_def server_call_def nonempty_files_def files_data_def
  getToken_def verifyToken_def getTokenLocally_def
  getTokenFromServer_def example_env_def exhausted_env_def example_task_def example_auth_def
  started_task_def ready_task_def pushed_task_def uploaded_file_def TaskI_new_def
  setUploadedFiles_def
  TaskStartGenericOptions_def TaskAddFileGenericOptions_def TaskProcessGenericOptions_def
  TaskProcessUpscaleImageOptions_def validateProcessToolOptions_def
  z_object_def z_optional_def z_default_def z_refine_def z_or_def z_string_length_def
  z_encryption_key_def default_arg_def get_prop_opt_def spread_def
  ILOVEIMG_API_URL_PROTOCOL_def ILOVEIMG_API_VERSION_def TIME_DELAY_def Let_def
  catch_classify_def classifyError_def js_or_def

text \<open>
  C3: on a task whose \<^verbatim>\<open>taskId\<close> or assigned server is unset (or falsy), each of
  \<^verbatim>\<open>addFile\<close>, \<^verbatim>\<open>deleteFile\<close>, \<^verbatim>\<open>process\<close>, \<^verbatim>\<open>download\<close>, \<^verbatim>\<open>details\<close> and \<^verbatim>\<open>delete\<close> raises the
  \<^verbatim>\<open>Error\<close> with the message
  \<^verbatim>\<open>"You need to retrieve task id and assigned server first using start() method."\<close>, having
  validated nothing and sent nothing (no event), and leaves the task as it was.  On a
  task whose \<^verbatim>\<open>taskId\<close> and server are set and whose \<^verbatim>\<open>uploadedFiles\<close> is unset or empty,
  \<^verbatim>\<open>process\<close> raises the \<^verbatim>\<open>Error\<close> with the message
  \<^verbatim>\<open>"You need to add files first using addFile() method."\<close>, again before it validates its
  options.
\<close>

theorem preconditions_checked_first:
  "(\<not> truthy (task_id s) \<or> \<not> truthy_server (server s) \<longrightarrow>
      addFile w options s =
        (Inl (Error ''You need to retrieve task id and assigned server first using start() method.''),
         s, []) \<and>
      deleteFile w options s =
        (Inl (Error ''You need to retrieve task id and assigned server first using start() method.''),
         s, []) \<and>
      process w options toolOptions s =
        (Inl (Error ''You need to retrieve task id and assigned server first using start() method.''),
         s, []) \<and>
      download w options s =
        (Inl (Error ''You need to retrieve task id and assigned server first using start() method.''),
         s, []) \<and>
      details w options s =
        (Inl (Error ''You need to retrieve task id and assigned server first using start() method.''),
         s, []) \<and>
      delete w options s =
        (Inl (Error ''You need to retrieve task id and assigned server first using start() method.''),
         s, [])) \<and>
   (truthy (task_id s) \<and> truthy_server (server s) \<and>
    (files s = NotArray JUndefined \<or> files_data s (files s) = JArr []) \<longrightarrow>
      process w options toolOptions s =
        (Inl (Error ''You need to add files first using addFile() method.''), s, []))"
  using precondition_start_all [where s = s and w = w and options = options]
    precondition_files_process [of s w options toolOptions] unset_or_empty_files [of s]
  by (auto simp: precondition_start_def precondition_files_def)

theorem preconditions_checked_first_witness:
  "addFile example_env (JObj [(''cloud_file'', JStr ''https://i.imgur.com/awesome.jpeg'')])
     example_task =
     (Inl (Error ''You need to retrieve task id and assigned server first using start() method.''),
      example_task, []) \<and>
   download example_env JUndefined example_task =
     (Inl (Error ''You need to retrieve task id and assigned server first using start() method.''),
      example_task, []) \<and>
   process example_env JUndefined (JObj [(''upscaleimage'', JObj [(''multiplier'', JNum 4)])])
     started_task =
     (Inl (Error ''You need to add files first using addFile() method.''), started_task, [])"
  using
    preconditions_checked_first
      [of example_task example_env
          "JObj [(''cloud_file'', JStr ''https://i.imgur.com/awesome.jpeg'')]" JUndefined]
    preconditions_checked_first [of example_task example_env JUndefined JUndefined]
    preconditions_checked_first
      [of started_task example_env JUndefined
          "JObj [(''upscaleimage'', JObj [(''multiplier'', JNum 4)])]"]
  by (simp add: example_task_def started_task_def TaskI_new_def files_data_def)

subsection \<open>start\<close>

lemma default_arg_get_prop: "get_prop (default_arg options (JObj [])) k = get_prop options k"
  by (cases options) (auto simp: default_arg_def)

lemma debug_schema_not_debug:
  "z_object [(''debug'', z_optional z_boolean)] options = Some v \<Longrightarrow>
   get_prop options ''debug'' \<noteq> JBool True \<Longrightarrow> \<not> truthy (get_prop_opt v ''debug'')"
  by (cases options; cases "get_prop options ''debug''")
    (auto simp: z_object_def z_optional_def get_prop_opt_def split: option.splits if_splits)

lemma debug_schema_debug:
  "z_object [(''debug'', z_optional z_boolean)] options = Some v \<Longrightarrow>
   get_prop options ''debug'' = JBool True \<Longrightarrow> truthy (get_prop_opt v ''debug'')"
  by (cases options)
    (auto simp: z_object_def z_optional_def get_prop_opt_def split: option.splits if_splits)

lemma start_failed_fields:
  "start w options s = (Inl error, s', events) \<Longrightarrow>
   task_id s' = task_id s \<and> server s' = server s \<and> remaining_files s' = remaining_files s \<and>
   files s' = files s \<and> arrays s' = arrays s"
  by (auto simp: start_def Let_def split: option.splits sum.splits prod.splits if_splits)

lemma start_succeeded_fields:
  assumes "start w options s = (Inr r, s', events)" and "get_prop options ''debug'' \<noteq> JBool True"
  shows "files s' = ArrayAt (fresh s) \<and> arrays s' (fresh s) = [] \<and> truthy (task_id s') \<and>
    truthy_server (server s')"
proof -
  obtain v where v: "TaskStartGenericOptions (default_arg options (JObj [])) = Some v"
    using assms(1) by (auto simp: start_def Let_def split: option.splits)
  then have "\<not> truthy (get_prop_opt v ''debug'')"
    using debug_schema_not_debug [of "default_arg options (JObj [])" v] assms(2)
    by (simp add: TaskStartGenericOptions_def default_arg_get_prop)
  with assms(1) v show ?thesis
    by (auto simp: start_def Let_def split: sum.splits prod.splits if_splits)
qed

lemma start_changes_files:
  assumes "start w options s = (r, s', events)" and "files s' \<noteq> files s \<or> arrays s' \<noteq> arrays s"
  shows "files_data s' (files s') = JArr [] \<and> (\<exists>v. r = Inr v) \<and>
    get_prop options ''debug'' \<noteq> JBool True"
proof -
  obtain v where v: "TaskStartGenericOptions (default_arg options (JObj [])) = Some v"
    using assms by (auto simp: start_def Let_def split: option.splits)
  have "truthy (get_prop_opt v ''debug'')" if "get_prop options ''debug'' = JBool True"
    using debug_schema_debug [of "default_arg options (JObj [])" v] v that
    by (simp add: TaskStartGenericOptions_def default_arg_get_prop)
  with assms v show ?thesis
    by (auto simp: start_def Let_def files_data_def split: sum.splits prod.splits if_splits)
qed

lemma start_options_invalid:
  "TaskStartGenericOptions (default_arg options (JObj [])) = None \<Longrightarrow>
   fst (start w options s) = Inl ZodError"
  by (simp add: start_def Let_def)

lemma start_token_failed:
  "TaskStartGenericOptions (default_arg options (JObj [])) = Some v \<Longrightarrow>
   getToken w (auth s) = (Inl error, a, signing) \<Longrightarrow>
   fst (start w options s) = catch_classify error"
  by (simp add: start_def Let_def)

lemma start_transport_failed:
  "TaskStartGenericOptions (default_arg options (JObj [])) = Some v \<Longrightarrow>
   getToken w (auth s) = (Inr t, a, signing) \<Longrightarrow> \<forall>req. http w req = Inl error \<Longrightarrow>
   fst (start w options s) = catch_classify error"
  by (simp add: start_def Let_def)

lemma start_missing_fields:
  "TaskStartGenericOptions (default_arg options (JObj [])) = Some v \<Longrightarrow>
   \<not> truthy (get_prop_opt v ''debug'') \<Longrightarrow>
   getToken w (auth s) = (Inr t, a, signing) \<Longrightarrow> \<forall>req. http w req = Inr resp \<Longrightarrow>
   \<not> truthy (data resp) \<or> \<not> truthy (get_prop (data resp) ''server'') \<or>
   \<not> truthy (get_prop (data resp) ''task'') \<or>
   \<not> truthy (get_prop (data resp) ''remaining_files'') \<Longrightarrow>
   fst (start w options s) = Inl (Error ''Invalid response: missing required fields'')"
  by (auto simp: start_def Let_def catch_classify_Error)

text \<open>
  C7: a \<^verbatim>\<open>start\<close> call that fails leaves \<^verbatim>\<open>taskId\<close>, the assigned server,
  \<^verbatim>\<open>remainingFiles\<close> and \<^verbatim>\<open>uploadedFiles\<close> (the field and the arrays of the store) as they
  were, and a failed \<^verbatim>\<open>addFile\<close> or \<^verbatim>\<open>process\<close> leaves \<^verbatim>\<open>uploadedFiles\<close> and \<^verbatim>\<open>taskId\<close> as they
  were.  The ways \<^verbatim>\<open>start\<close> fails: its options do not validate (a \<^verbatim>\<open>ZodError\<close>); no token
  can be acquired, or the transport fails (what \<^verbatim>\<open>classifyError\<close> throws for the cause);
  or, in non-debug mode, the response lacks a truthy \<^verbatim>\<open>server\<close>, \<^verbatim>\<open>task\<close> or
  \<^verbatim>\<open>remaining_files\<close> (\<^verbatim>\<open>Error("Invalid response: missing required fields")\<close>).
\<close>

theorem failed_calls_keep_task_state:
  "(start w options s = (Inl error, s', events) \<longrightarrow>
      task_id s' = task_id s \<and> server s' = server s \<and>
      remaining_files s' = remaining_files s \<and> files s' = files s \<and> arrays s' = arrays s) \<and>
   (addFile w options s = (Inl error, s', events) \<longrightarrow>
      files s' = files s \<and> arrays s' = arrays s \<and> task_id s' = task_id s) \<and>
   (process w options toolOptions s = (Inl error, s', events) \<longrightarrow>
      files s' = files s \<and> arrays s' = arrays s \<and> task_id s' = task_id s) \<and>
   (TaskStartGenericOptions (default_arg options (JObj [])) = None \<longrightarrow>
      fst (start w options s) = Inl ZodError) \<and>
   (TaskStartGenericOptions (default_arg options (JObj [])) = Some v \<and>
    getToken w (auth s) = (Inl cause, a, signing) \<longrightarrow>
      fst (start w options s) = catch_classify cause \<and>
      (\<exists>thrown. catch_classify cause = Inl thrown)) \<and>
   (TaskStartGenericOptions (default_arg options (JObj [])) = Some v \<and>
    getToken w (auth s) = (Inr t, a, signing) \<and> (\<forall>req. http w req = Inl cause) \<longrightarrow>
      fst (start w options s) = catch_classify cause \<and>
      (\<exists>thrown. catch_classify cause = Inl thrown)) \<and>
   (TaskStartGenericOptions (default_arg options (JObj [])) = Some v \<and>
    \<not> truthy (get_prop_opt v ''debug'') \<and>
    getToken w (auth s) = (Inr t, a, signing) \<and> (\<forall>req. http w req = Inr resp) \<and>
    (\<not> truthy (data resp) \<or> \<not> truthy (get_prop (data resp) ''server'') \<or>
     \<not> truthy (get_prop (data resp) ''task'') \<or>
     \<not> truthy (get_prop (data resp) ''remaining_files'')) \<longrightarrow>
      fst (start w options s) = Inl (Error ''Invalid response: missing required fields''))"
proof -
  have add: "addFile w options s = (Inl error, s', events) \<longrightarrow>
      files s' = files s \<and> arrays s' = arrays s \<and> task_id s' = task_id s"
    using addFile_state [of w options s "Inl error" s' events] by blast
  have proc: "process w options toolOptions s = (Inl error, s', events) \<longrightarrow>
      files s' = files s \<and> arrays s' = arrays s \<and> task_id s' = task_id s"
    using process_state [of w options toolOptions s "Inl error" s' events] by blast
  show ?thesis
    using add proc start_failed_fields [of w options s error s' events]
      start_options_invalid [of options w s] start_token_failed [of options v w s cause a signing]
      start_transport_failed [of options v w s t a signing cause]
      start_missing_fields [of options v w s t a signing resp]
      catch_classify_raises [of cause]
    by blast
qed

theorem failed_calls_keep_task_state_witness:
  "fst (start exhausted_env JUndefined example_task) =
     Inl (Error ''Invalid response: missing required fields'') \<and>
   task_id (fst (snd (start exhausted_env JUndefined example_task))) = JUndefined \<and>
   server (fst (snd (start exhausted_env JUndefined example_task))) = NotInstance JUndefined \<and>
   remaining_files (fst (snd (start exhausted_env JUndefined example_task))) = JUndefined \<and>
   files (fst (snd (start exhausted_env JUndefined example_task))) = NotArray JUndefined"
proof -
  have valid: "TaskStartGenericOptions (default_arg JUndefined (JObj [])) = Some (JObj [])"
    by (simp add: eval_defs)
  have tok: "getToken exhausted_env (auth example_task) =
      (Inr (JStr ''fresh.jwt''), example_auth\<lparr>token := JStr ''fresh.jwt''\<rparr>,
       [Signed \<lparr>iss = ''api.ilovepdf.com'', iat = 1699999970, nbf = 1699999970,
               exp = 1700003600, jti = ''project_public_key'', file_encryption_key = None\<rparr>
         (JStr ''secret'')])"
    by (simp add: eval_defs)
  have net: "\<forall>req. http exhausted_env req =
      Inr (Response (JNum 200)
             (JObj [(''server'', JStr ''api8g.iloveimg.com''), (''task'', JStr ''task1''),
                    (''remaining_files'', JNum 0)]))"
    by (simp add: exhausted_env_def)
  obtain r s' events where run: "start exhausted_env JUndefined example_task = (r, s', events)"
    by (cases "start exhausted_env JUndefined example_task")
  note inst = failed_calls_keep_task_state
    [where w = exhausted_env and options = JUndefined and s = example_task and v = "JObj []"
       and t = "JStr ''fresh.jwt''" and a = "example_auth\<lparr>token := JStr ''fresh.jwt''\<rparr>"
       and resp = "Response (JNum 200)
             (JObj [(''server'', JStr ''api8g.iloveimg.com''), (''task'', JStr ''task1''),
                    (''remaining_files'', JNum 0)])"
       and s' = s' and events = events
       and error = "Error ''Invalid response: missing required fields''"]
  have r: "r = Inl (Error ''Invalid response: missing required fields'')"
    using inst valid tok net run by (simp add: get_prop_opt_def)
  with inst run have "task_id s' = task_id example_task \<and> server s' = server example_task \<and>
      remaining_files s' = remaining_files example_task \<and> files s' = files example_task"
    by blast
  with r run show ?thesis by (simp add: example_task_def TaskI_new_def)
qed

subsection \<open>The list of uploaded files\<close>

lemma addFiles_state: "addFiles calls s = Some s' \<Longrightarrow> s' = s"
proof (induction calls arbitrary: s)
  case Nil
  then show ?case by simp
next
  case (Cons c calls)
  obtain w options where c: "c = (w, options)" by (cases c)
  obtain r s1 events where a: "addFile w options s = (r, s1, events)"
    by (cases "addFile w options s")
  then have "s1 = s" by (rule addFile_state)
  with Cons c a show ?case by (cases r) auto
qed

lemma start_never_filled: "never_filled s \<Longrightarrow> never_filled (fst (snd (start w options s)))"
  by (auto simp: never_filled_def files_data_def start_def Let_def
      split: option.splits sum.splits prod.splits if_splits files_value.splits)

lemma after_call_never_filled:
  assumes "never_filled s"
  shows "never_filled (after_call w c s)"
proof (cases c)
  case (Start options)
  with assms show ?thesis by (simp add: start_never_filled)
next
  case (AddFile options)
  with assms show ?thesis
    using addFile_state [of w options s] by (cases "addFile w options s") auto
next
  case (DeleteFile options)
  with assms show ?thesis
    using deleteFile_state [of w options s] by (cases "deleteFile w options s") auto
next
  case (Process options toolOptions)
  with assms show ?thesis
    using process_state [of w options toolOptions s]
    by (cases "process w options toolOptions s") auto
next
  case (Download options)
  with assms show ?thesis
    using download_state [of w options s] by (cases "download w options s") auto
next
  case (Details options)
  with assms show ?thesis
    using details_state [of w options s] by (cases "details w options s") auto
next
  case (Delete options)
  with assms show ?thesis
    using delete_state [of w options s] by (cases "delete w options s") auto
qed

lemma after_calls_never_filled: "never_filled s \<Longrightarrow> never_filled (after_calls calls s)"
  by (induction calls arbitrary: s) (auto simp: after_call_never_filled)

lemma never_filled_not_nonempty: "never_filled s \<Longrightarrow> \<not> nonempty_files s"
  by (simp add: never_filled_def unset_or_empty_files)

lemma process_never_filled:
  "never_filled s \<Longrightarrow>
   process w options toolOptions s = (Inl precondition_start, s, []) \<or>
   process w options toolOptions s = (Inl precondition_files, s, [])"
  using never_filled_not_nonempty [of s] by (auto simp: process_def Let_def)

lemma process_past_preconditions:
  "truthy (task_id s) \<Longrightarrow> truthy_server (server s) \<Longrightarrow> nonempty_files s \<Longrightarrow>
   \<exists>later. snd (snd (process w options toolOptions s)) =
     Parsed ''TaskProcessGenericOptions'' (default_arg options (JObj [])) # later"
  by (auto simp: process_def Let_def split: option.splits sum.splits prod.splits)

lemma start_example:
  "start example_env JUndefined example_task =
     (Inr (JObj [(''server'', JStr ''api8g.iloveimg.com''), (''task_id'', JStr ''task1''),
                 (''remaining_files'', JNum 2320)]),
      started_task,
      [Parsed ''TaskStartGenericOptions'' (JObj []),
       Signed \<lparr>iss = ''api.ilovepdf.com'', iat = 1699999970, nbf = 1699999970,
               exp = 1700003600, jti = ''project_public_key'', file_encryption_key = None\<rparr>
         (JStr ''secret''),
       Sent (Request \<lparr>baseURL = ''https://api.ilovepdf.com/v1'',
                      Authorization = Some ''Bearer fresh.jwt''\<rparr> GET ''/start/upscaleimage''
               JUndefined)])"
  by (simp add: eval_defs)

lemma addFiles_example:
  "addFiles [(example_env, JObj [(''cloud_file'', JStr ''https://i.imgur.com/awesome.jpeg'')]),
             (example_env, JObj [(''cloud_file'', JStr ''https://i.imgur.com/second.jpeg'')])]
     started_task = Some started_task"
  by (simp add: eval_defs)

text \<open>
  C1, as stated, fails: the non-empty-files precondition of \<^verbatim>\<open>process\<close> can be satisfied
  without the setter for tests.  \<^verbatim>\<open>getUploadedFiles\<close> returns the array that \<^verbatim>\<open>#files\<close>
  holds, not a copy: after \<^verbatim>\<open>start()\<close>, \<^verbatim>\<open>task.getUploadedFiles().push(file)\<close> puts the file
  into the private list, and \<^verbatim>\<open>process\<close> validates its options and sends its request.
\<close>

theorem getUploadedFiles_push_counterexample:
  "fst (snd (start example_env JUndefined example_task)) = started_task \<and>
   getUploadedFiles started_task = ArrayAt 0 \<and>
   array_push (getUploadedFiles started_task) uploaded_file started_task = Inr pushed_task \<and>
   process example_env JUndefined (JObj [(''upscaleimage'', JObj [(''multiplier'', JNum 4)])])
     pushed_task =
     (Inr (JObj [(''server'', JStr ''api8g.iloveimg.com''), (''task'', JStr ''task1''),
                 (''remaining_files'', JNum 2320), (''token'', JStr ''server.jwt''),
                 (''server_filename'', JStr ''abc.jpg'')]),
      pushed_task,
      [Parsed ''TaskProcessGenericOptions'' (JObj []),
       Parsed ''validateProcessToolOptions''
         (JObj [(''upscaleimage'', JObj [(''multiplier'', JNum 4)])]),
       Sent (Request \<lparr>baseURL = ''https://api8g.iloveimg.com/v1'',
                      Authorization = Some ''Bearer fresh.jwt''\<rparr> POST ''/process''
               (JObj [(''task'', JStr ''task1''), (''tool'', JStr ''upscaleimage''),
                      (''files'', JArr [uploaded_file]),
                      (''ignore_errors'', JBool True), (''try_image_repair'', JBool True),
                      (''multiplier'', JNum 4)]))])"
proof -
  have "array_push (getUploadedFiles started_task) uploaded_file started_task = Inr pushed_task"
    by (simp add: getUploadedFiles_def array_push_def started_task_def pushed_task_def)
  moreover have "getUploadedFiles started_task = ArrayAt 0"
    by (simp add: getUploadedFiles_def started_task_def)
  moreover have "process example_env JUndefined
      (JObj [(''upscaleimage'', JObj [(''multiplier'', JNum 4)])]) pushed_task =
     (Inr (JObj [(''server'', JStr ''api8g.iloveimg.com''), (''task'', JStr ''task1''),
                 (''remaining_files'', JNum 2320), (''token'', JStr ''server.jwt''),
                 (''server_filename'', JStr ''abc.jpg'')]),
      pushed_task,
      [Parsed ''TaskProcessGenericOptions'' (JObj []),
       Parsed ''validateProcessToolOptions''
         (JObj [(''upscaleimage'', JObj [(''multiplier'', JNum 4)])]),
       Sent (Request \<lparr>baseURL = ''https://api8g.iloveimg.com/v1'',
                      Authorization = Some ''Bearer fresh.jwt''\<rparr> POST ''/process''
               (JObj [(''task'', JStr ''task1''), (''tool'', JStr ''upscaleimage''),
                      (''files'', JArr [uploaded_file]),
                      (''ignore_errors'', JBool True), (''try_image_repair'', JBool True),
                      (''multiplier'', JNum 4)]))])"
    by (simp add: eval_defs)
  ultimately show ?thesis by (simp add: start_example)
qed

text \<open>
  C1, amended: a call of \<^verbatim>\<open>addFile\<close> leaves \<^verbatim>\<open>uploadedFiles\<close> as it was.  \<^verbatim>\<open>start\<close> changes it
  only when it succeeds in non-debug mode, and then to the empty list.  So after a
  successful non-debug \<^verbatim>\<open>start\<close> followed by any number of successful \<^verbatim>\<open>addFile\<close> calls,
  \<^verbatim>\<open>getUploadedFiles\<close> still returns the empty list and \<^verbatim>\<open>process\<close> raises
  \<^verbatim>\<open>"You need to add files first using addFile() method."\<close>.  Through calls of \<^verbatim>\<open>start\<close>,
  \<^verbatim>\<open>addFile\<close>, \<^verbatim>\<open>deleteFile\<close>, \<^verbatim>\<open>process\<close>, \<^verbatim>\<open>download\<close>, \<^verbatim>\<open>details\<close> and \<^verbatim>\<open>delete\<close> alone, from
  the constructor on, the list never holds a file, and \<^verbatim>\<open>process\<close> raises one of its two
  precondition errors.  The precondition on the files is satisfied through the setter
  for tests, and also by pushing into the array that \<^verbatim>\<open>getUploadedFiles\<close> returns: on a
  started task \<^verbatim>\<open>process\<close> then goes on to validate its options.
\<close>

theorem addFile_never_fills_uploadedFiles:
  "(addFile w options s = (r, s', events) \<longrightarrow> files s' = files s \<and> arrays s' = arrays s) \<and>
   (start w0 options0 s0 = (r0, s1, events0) \<and>
    (files s1 \<noteq> files s0 \<or> arrays s1 \<noteq> arrays s0) \<longrightarrow>
      files_data s1 (files s1) = JArr [] \<and> (\<exists>v. r0 = Inr v) \<and>
      get_prop options0 ''debug'' \<noteq> JBool True) \<and>
   (start w0 options0 s0 = (Inr v0, s1, events0) \<and> get_prop options0 ''debug'' \<noteq> JBool True \<and>
    addFiles calls s1 = Some s2 \<longrightarrow>
      (\<exists>b. getUploadedFiles s2 = ArrayAt b \<and> arrays s2 b = []) \<and>
      files_data s2 (getUploadedFiles s2) = JArr [] \<and>
      process w options toolOptions s2 =
        (Inl (Error ''You need to add files first using addFile() method.''), s2, [])) \<and>
   \<not> nonempty_files (after_calls public_calls (TaskI_new a fixedServer taskType)) \<and>
   (\<exists>error.
      process w options toolOptions (after_calls public_calls (TaskI_new a fixedServer taskType)) =
        (Inl error, after_calls public_calls (TaskI_new a fixedServer taskType), []) \<and>
      (error = Error ''You need to retrieve task id and assigned server first using start() method.'' \<or>
       error = Error ''You need to add files first using addFile() method.'')) \<and>
   (truthy (task_id s) \<and> truthy_server (server s) \<longrightarrow>
      (\<exists>later. snd (snd (process w options toolOptions (setUploadedFiles (JArr (y # ys)) s))) =
         Parsed ''TaskProcessGenericOptions'' (default_arg options (JObj [])) # later)) \<and>
   (truthy (task_id s) \<and> truthy_server (server s) \<and>
    array_push (getUploadedFiles s) x s = Inr s3 \<longrightarrow>
      (\<exists>later. snd (snd (process w options toolOptions s3)) =
         Parsed ''TaskProcessGenericOptions'' (default_arg options (JObj [])) # later))"
proof -
  have frame: "addFile w options s = (r, s', events) \<longrightarrow> files s' = files s \<and> arrays s' = arrays s"
    using addFile_state [of w options s r s' events] by blast
  have change: "start w0 options0 s0 = (r0, s1, events0) \<and>
    (files s1 \<noteq> files s0 \<or> arrays s1 \<noteq> arrays s0) \<longrightarrow>
      files_data s1 (files s1) = JArr [] \<and> (\<exists>v. r0 = Inr v) \<and>
      get_prop options0 ''debug'' \<noteq> JBool True"
    using start_changes_files [of w0 options0 s0 r0 s1 events0] by blast
  have flow: "(\<exists>b. getUploadedFiles s2 = ArrayAt b \<and> arrays s2 b = []) \<and>
      files_data s2 (getUploadedFiles s2) = JArr [] \<and>
      process w options toolOptions s2 =
        (Inl (Error ''You need to add files first using addFile() method.''), s2, [])"
    if "start w0 options0 s0 = (Inr v0, s1, events0)" "get_prop options0 ''debug'' \<noteq> JBool True"
      "addFiles calls s1 = Some s2"
  proof -
    have "s2 = s1" using that(3) by (rule addFiles_state)
    moreover have started: "files s1 = ArrayAt (fresh s0) \<and> arrays s1 (fresh s0) = [] \<and>
        truthy (task_id s1) \<and> truthy_server (server s1)"
      using that(1,2) by (rule start_succeeded_fields)
    moreover have "\<not> nonempty_files s1"
      using started by (simp add: nonempty_files_def)
    ultimately show ?thesis
      using precondition_files_process [of s2 w options toolOptions]
      by (simp add: getUploadedFiles_def files_data_def precondition_files_def)
  qed
  have fresh: "never_filled (TaskI_new a fixedServer taskType)"
    by (simp add: never_filled_def TaskI_new_def)
  then have reach: "never_filled (after_calls public_calls (TaskI_new a fixedServer taskType))"
    by (rule after_calls_never_filled)
  then have empty:
    "\<not> nonempty_files (after_calls public_calls (TaskI_new a fixedServer taskType))"
    by (rule never_filled_not_nonempty)
  have setter: "truthy (task_id s) \<and> truthy_server (server s) \<longrightarrow>
      (\<exists>later. snd (snd (process w options toolOptions (setUploadedFiles (JArr (y # ys)) s))) =
         Parsed ''TaskProcessGenericOptions'' (default_arg options (JObj [])) # later)"
    using process_past_preconditions [of "setUploadedFiles (JArr (y # ys)) s" w options toolOptions]
    by (simp add: setUploadedFiles_def nonempty_files_def)
  have pushed: "truthy (task_id s) \<and> truthy_server (server s) \<and>
    array_push (getUploadedFiles s) x s = Inr s3 \<longrightarrow>
      (\<exists>later. snd (snd (process w options toolOptions s3)) =
         Parsed ''TaskProcessGenericOptions'' (default_arg options (JObj [])) # later)"
  proof (intro impI, elim conjE)
    assume t: "truthy (task_id s)" and srv: "truthy_server (server s)"
      and p: "array_push (getUploadedFiles s) x s = Inr s3"
    then obtain b where b: "getUploadedFiles s = ArrayAt b"
      and s3: "s3 = s\<lparr>arrays := (arrays s)(b := arrays s b @ [x])\<rparr>"
      by (auto simp: array_push_def split: files_value.splits if_splits)
    from b have "files s = ArrayAt b"
      by (auto simp: getUploadedFiles_def split: if_splits)
    with s3 have "nonempty_files s3" by (simp add: nonempty_files_def)
    with t srv s3 show "\<exists>later. snd (snd (process w options toolOptions s3)) =
         Parsed ''TaskProcessGenericOptions'' (default_arg options (JObj [])) # later"
      using process_past_preconditions [of s3 w options toolOptions] by simp
  qed
  from process_never_filled [OF reach, of w options toolOptions] frame change flow empty setter
    pushed
  show ?thesis
    by (auto simp: precondition_start_def precondition_files_def)
qed

theorem addFile_never_fills_uploadedFiles_witness:
  "fst (start example_env JUndefined example_task) =
     Inr (JObj [(''server'', JStr ''api8g.iloveimg.com''), (''task_id'', JStr ''task1''),
                (''remaining_files'', JNum 2320)]) \<and>
   fst (snd (start example_env JUndefined example_task)) = started_task \<and>
   addFiles [(example_env, JObj [(''cloud_file'', JStr ''https://i.imgur.com/awesome.jpeg'')]),
             (example_env, JObj [(''cloud_file'', JStr ''https://i.imgur.com/second.jpeg'')])]
     started_task = Some started_task \<and>
   files_data started_task (getUploadedFiles started_task) = JArr [] \<and>
   process example_env JUndefined (JObj [(''upscaleimage'', JObj [(''multiplier'', JNum 4)])])
     started_task =
     (Inl (Error ''You need to add files first using addFile() method.''), started_task, [])"
proof -
  note inst = addFile_never_fills_uploadedFiles
    [where ?w0.0 = example_env and ?options0.0 = JUndefined and ?s0.0 = example_task
       and ?s1.0 = started_task and ?s2.0 = started_task
       and ?v0.0 = "JObj [(''server'', JStr ''api8g.iloveimg.com''), (''task_id'', JStr ''task1''),
                         (''remaining_files'', JNum 2320)]"
       and ?events0.0 = "[Parsed ''TaskStartGenericOptions'' (JObj []),
           Signed \<lparr>iss = ''api.ilovepdf.com'', iat = 1699999970, nbf = 1699999970,
                   exp = 1700003600, jti = ''project_public_key'', file_encryption_key = None\<rparr>
             (JStr ''secret''),
           Sent (Request \<lparr>baseURL = ''https://api.ilovepdf.com/v1'',
                          Authorization = Some ''Bearer fresh.jwt''\<rparr> GET ''/start/upscaleimage''
                   JUndefined)]"
       and calls = "[(example_env, JObj [(''cloud_file'', JStr ''https://i.imgur.com/awesome.jpeg'')]),
                     (example_env, JObj [(''cloud_file'', JStr ''https://i.imgur.com/second.jpeg'')])]"
       and w = example_env and options = JUndefined
       and toolOptions = "JObj [(''upscaleimage'', JObj [(''multiplier'', JNum 4)])]"]
  have "get_prop JUndefined ''debug'' \<noteq> JBool True" by simp
  with inst start_example addFiles_example show ?thesis by auto
qed

subsection \<open>Tool options of process\<close>

lemma upscale_missing: "TaskProcessUpscaleImageOptions JUndefined = None"
  by (simp add: TaskProcessUpscaleImageOptions_def z_object_def)

lemma upscale_multiplier:
  "TaskProcessUpscaleImageOptions (JObj [(''multiplier'', JNum n)]) =
     (if n = 2 \<or> n = 4 then Some (JObj [(''multiplier'', JNum n)]) else None)"
  by (auto simp: TaskProcessUpscaleImageOptions_def z_object_def z_refine_def)

lemma upscale_empty: "TaskProcessUpscaleImageOptions (JObj []) = None"
  by (simp add: TaskProcessUpscaleImageOptions_def z_object_def z_refine_def)

lemma validate_upscaleimage:
  "validateProcessToolOptions w (JStr ''upscaleimage'') toolOptions =
     (case TaskProcessUpscaleImageOptions (get_prop_opt toolOptions ''upscaleimage'') of
        None \<Rightarrow> Inl ZodError
      | Some v \<Rightarrow> Inr v)"
  by (simp add: validateProcessToolOptions_def Let_def)

lemma validate_keyed_multiplier:
  "validateProcessToolOptions w (JStr ''upscaleimage'')
     (JObj [(''upscaleimage'', JObj [(''multiplier'', JNum n)])]) =
     (if n = 2 \<or> n = 4 then Inr (JObj [(''multiplier'', JNum n)]) else Inl ZodError)"
  by (simp add: validate_upscaleimage get_prop_opt_def upscale_multiplier)

text \<open>
  C8: on the task bound to \<^verbatim>\<open>upscaleimage\<close> whose \<^verbatim>\<open>taskId\<close>, server and one uploaded file
  are set, \<^verbatim>\<open>process\<close> raises a validation error with \<^verbatim>\<open>toolOptions = {}\<close> and with
  \<^verbatim>\<open>{ multiplier: 5 }\<close>, as the claim says.  With \<^verbatim>\<open>{ multiplier: 4 }\<close> the claim says that
  validation succeeds and the request is issued.  The schema does accept
  \<^verbatim>\<open>{ multiplier: 4 }\<close> (it accepts 2 and 4, and neither 3 nor 5), but the dispatcher hands
  it \<^verbatim>\<open>toolOptions["upscaleimage"]\<close>, which is \<^verbatim>\<open>undefined\<close>: \<^verbatim>\<open>process\<close> rejects with a \<^verbatim>\<open>ZodError\<close>
  and sends no request.
\<close>

theorem process_flat_multiplier_rejected:
  "process example_env JUndefined (JObj [(''multiplier'', JNum 4)]) ready_task =
     (Inl ZodError, ready_task,
      [Parsed ''TaskProcessGenericOptions'' (JObj []),
       Parsed ''validateProcessToolOptions'' (JObj [(''multiplier'', JNum 4)])]) \<and>
   process example_env JUndefined (JObj []) ready_task =
     (Inl ZodError, ready_task,
      [Parsed ''TaskProcessGenericOptions'' (JObj []),
       Parsed ''validateProcessToolOptions'' (JObj [])]) \<and>
   process example_env JUndefined (JObj [(''multiplier'', JNum 5)]) ready_task =
     (Inl ZodError, ready_task,
      [Parsed ''TaskProcessGenericOptions'' (JObj []),
       Parsed ''validateProcessToolOptions'' (JObj [(''multiplier'', JNum 5)])]) \<and>
   validateProcessToolOptions example_env (JStr ''upscaleimage'') (JObj [(''multiplier'', JNum 4)]) =
     Inl ZodError \<and>
   TaskProcessUpscaleImageOptions (JObj [(''multiplier'', JNum 4)]) =
     Some (JObj [(''multiplier'', JNum 4)]) \<and>
   TaskProcessUpscaleImageOptions (JObj [(''multiplier'', JNum 2)]) =
     Some (JObj [(''multiplier'', JNum 2)]) \<and>
   TaskProcessUpscaleImageOptions (JObj [(''multiplier'', JNum 3)]) = None \<and>
   TaskProcessUpscaleImageOptions (JObj [(''multiplier'', JNum 5)]) = None \<and>
   TaskProcessUpscaleImageOptions (JObj []) = None"
  by (simp add: eval_defs)

theorem process_flat_multiplier_rejected_witness:
  "fst (process example_env JUndefined (JObj [(''multiplier'', JNum 4)]) ready_task) =
     Inl ZodError \<and>
   snd (snd (process example_env JUndefined (JObj [(''multiplier'', JNum 4)]) ready_task)) =
     [Parsed ''TaskProcessGenericOptions'' (JObj []),
      Parsed ''validateProcessToolOptions'' (JObj [(''multiplier'', JNum 4)])]"
  using process_flat_multiplier_rejected by simp

subsection \<open>The token cache\<close>

lemma verifyToken_in_lifetime:
  "token_in_lifetime w a \<Longrightarrow> verifyToken w a = (Decoded (decode w (token a)), a)"
  by (auto simp: token_in_lifetime_def verifyToken_def Let_def split: option.splits if_splits)

lemma verifyToken_not_in_lifetime:
  "\<not> token_in_lifetime w a \<Longrightarrow> truthy (token a) \<Longrightarrow>
   verifyToken w a = (TokenField JUndefined, a\<lparr>token := JUndefined\<rparr>)"
  by (auto simp: token_in_lifetime_def verifyToken_def Let_def split: option.splits if_splits)

lemma verifyToken_no_token:
  "\<not> truthy (token a) \<Longrightarrow> verifyToken w a = (TokenField (token a), a)"
  by (simp add: verifyToken_def)

lemma getToken_cached:
  "token_in_lifetime w a \<Longrightarrow> getToken w a = (Inr (token a), a, [])"
  by (simp add: getToken_def verifyToken_in_lifetime Let_def) (simp add: token_in_lifetime_def)

text \<open>
  C4: when the cached token is within its lifetime, two consecutive \<^verbatim>\<open>getToken\<close> calls
  (the second at a later reading of the clock) both return the cached token, the
  \<^verbatim>\<open>Auth\<close> instance is as it was after each, and neither call signs a token or sends a
  request: both lists of events are empty.
\<close>

theorem getToken_twice_cached:
  "token_in_lifetime w1 a \<and> token_in_lifetime w2 a \<longrightarrow>
     getToken w1 a = (Inr (token a), a, []) \<and>
     getToken w2 (fst (snd (getToken w1 a))) = (Inr (token a), a, [])"
  by (simp add: getToken_cached)

theorem getToken_twice_cached_witness:
  "getToken example_env cached_auth = (Inr (JStr ''cached.jwt''), cached_auth, []) \<and>
   getToken later_env (fst (snd (getToken example_env cached_auth))) =
     (Inr (JStr ''cached.jwt''), cached_auth, []) \<and>
   getToken example_env cached_public_auth = (Inr (JStr ''cached.jwt''), cached_public_auth, []) \<and>
   getToken later_env (fst (snd (getToken example_env cached_public_auth))) =
     (Inr (JStr ''cached.jwt''), cached_public_auth, [])"
proof -
  have "token_in_lifetime example_env cached_auth" "token_in_lifetime later_env cached_auth"
    "token_in_lifetime example_env cached_public_auth"
    "token_in_lifetime later_env cached_public_auth"
    by (simp_all add: token_in_lifetime_def cached_auth_def cached_public_auth_def public_auth_def
        example_auth_def example_env_def later_env_def example_payload_def)
  moreover have "token cached_auth = JStr ''cached.jwt''"
    "token cached_public_auth = JStr ''cached.jwt''"
    by (simp_all add: cached_auth_def cached_public_auth_def)
  ultimately show ?thesis
    using getToken_twice_cached [of example_env cached_auth later_env]
      getToken_twice_cached [of example_env cached_public_auth later_env]
    by auto
qed

text \<open>
  C5: after \<^verbatim>\<open>verifyToken\<close> the cached token is absent or valid.  With no token cached it
  returns \<^verbatim>\<open>undefined\<close>.  A cached token whose decoded \<^verbatim>\<open>exp\<close> is earlier than the current
  time (without secret key), or that \<^verbatim>\<open>jsonwebtoken.verify\<close> rejects (with secret key),
  is cleared, and \<^verbatim>\<open>undefined\<close> is returned.  On success the decoded claims are returned
  and the instance is not changed.  (The \<^verbatim>\<open>token\<close> field is \<^verbatim>\<open>string | undefined\<close>; the
  invariant is stated for a field that is \<^verbatim>\<open>undefined\<close> or a non-empty string.)
\<close>

theorem verifyToken_absent_or_valid:
  "(token a = JUndefined \<longrightarrow> verifyToken w a = (TokenField JUndefined, a)) \<and>
   (truthy (token a) \<and> \<not> truthy (secretKey a) \<and> decode w (token a) = Some payload \<and>
    exp payload < now w div 1000 \<longrightarrow>
      verifyToken w a = (TokenField JUndefined, a\<lparr>token := JUndefined\<rparr>)) \<and>
   (truthy (token a) \<and> truthy (secretKey a) \<and> \<not> verify w (token a) (secretKey a) (now w) \<longrightarrow>
      verifyToken w a = (TokenField JUndefined, a\<lparr>token := JUndefined\<rparr>)) \<and>
   (token_in_lifetime w a \<longrightarrow> verifyToken w a = (Decoded (decode w (token a)), a)) \<and>
   (verifyToken w a = (Decoded claims, a') \<longrightarrow>
      a' = a \<and> claims = decode w (token a) \<and> token_in_lifetime w a) \<and>
   (token a = JUndefined \<or> truthy (token a) \<longrightarrow>
      token (snd (verifyToken w a)) = JUndefined \<or>
      token_in_lifetime w (snd (verifyToken w a)))"
proof -
  have absent: "token a = JUndefined \<longrightarrow> verifyToken w a = (TokenField JUndefined, a)"
    by (simp add: verifyToken_def)
  have expired: "truthy (token a) \<and> \<not> truthy (secretKey a) \<and> decode w (token a) = Some payload \<and>
    exp payload < now w div 1000 \<longrightarrow>
      verifyToken w a = (TokenField JUndefined, a\<lparr>token := JUndefined\<rparr>)"
    by (simp add: verifyToken_def Let_def)
  have forged: "truthy (token a) \<and> truthy (secretKey a) \<and>
    \<not> verify w (token a) (secretKey a) (now w) \<longrightarrow>
      verifyToken w a = (TokenField JUndefined, a\<lparr>token := JUndefined\<rparr>)"
    by (simp add: verifyToken_def Let_def)
  have success: "verifyToken w a = (Decoded claims, a') \<longrightarrow>
      a' = a \<and> claims = decode w (token a) \<and> token_in_lifetime w a"
    by (auto simp: verifyToken_def token_in_lifetime_def Let_def split: option.splits if_splits)
  have invariant: "token a = JUndefined \<or> truthy (token a) \<longrightarrow>
      token (snd (verifyToken w a)) = JUndefined \<or> token_in_lifetime w (snd (verifyToken w a))"
    using verifyToken_in_lifetime [of w a] verifyToken_not_in_lifetime [of w a]
      verifyToken_no_token [of a w]
    by (cases "token_in_lifetime w a") auto
  from absent expired forged success invariant verifyToken_in_lifetime [of w a]
  show ?thesis by blast
qed



theorem verifyToken_absent_or_valid_witness:
  "verifyToken example_env example_auth = (TokenField JUndefined, example_auth) \<and>
   verifyToken expired_env cached_public_auth = (TokenField JUndefined, public_auth) \<and>
   verifyToken expired_env cached_auth = (TokenField JUndefined, example_auth) \<and>
   verifyToken example_env cached_auth = (Decoded (Some example_payload), cached_auth)"
proof -
  have absent: "token example_auth = JUndefined"
    by (simp add: example_auth_def)
  have expired: "truthy (token cached_public_auth)" "\<not> truthy (secretKey cached_public_auth)"
    "decode expired_env (token cached_public_auth) = Some example_payload"
    "exp example_payload < now expired_env div 1000"
    by (simp_all add: cached_public_auth_def public_auth_def example_auth_def expired_env_def
        example_env_def example_payload_def)
  have rejected: "truthy (token cached_auth)" "truthy (secretKey cached_auth)"
    "\<not> verify expired_env (token cached_auth) (secretKey cached_auth) (now expired_env)"
    by (simp_all add: cached_auth_def example_auth_def expired_env_def example_env_def)
  have valid: "token_in_lifetime example_env cached_auth"
    "decode example_env (token cached_auth) = Some example_payload"
    by (simp_all add: token_in_lifetime_def cached_auth_def example_auth_def example_env_def)
  have cleared: "cached_public_auth\<lparr>token := JUndefined\<rparr> = public_auth"
    "cached_auth\<lparr>token := JUndefined\<rparr> = example_auth"
    by (simp_all add: cached_public_auth_def cached_auth_def public_auth_def example_auth_def)
  have "verifyToken example_env example_auth = (TokenField JUndefined, example_auth)"
    using verifyToken_absent_or_valid [of example_auth example_env] absent by blast
  moreover have "verifyToken expired_env cached_public_auth =
      (TokenField JUndefined, cached_public_auth\<lparr>token := JUndefined\<rparr>)"
    using verifyToken_absent_or_valid [of cached_public_auth expired_env example_payload] expired
    by blast
  moreover have "verifyToken expired_env cached_auth =
      (TokenField JUndefined, cached_auth\<lparr>token := JUndefined\<rparr>)"
    using verifyToken_absent_or_valid [of cached_auth expired_env] rejected by blast
  moreover have "verifyToken example_env cached_auth =
      (Decoded (decode example_env (token cached_auth)), cached_auth)"
    using verifyToken_absent_or_valid [of cached_auth example_env] valid(1) by blast
  ultimately show ?thesis by (simp add: cleared valid(2))
qed

text \<open>
  C6: with a secret key and no valid cached token, \<^verbatim>\<open>getToken\<close> returns and caches the
  token that \<^verbatim>\<open>jsonwebtoken.sign\<close> makes, with the secret key, of the claims \<^verbatim>\<open>iss\<close> (the
  configured issuer), \<^verbatim>\<open>iat\<close> and \<^verbatim>\<open>nbf\<close> (now - 30 seconds), \<^verbatim>\<open>exp\<close> (now + the configured
  age), \<^verbatim>\<open>jti\<close> (the public key) and \<^verbatim>\<open>file_encryption_key\<close> (the configured key, when
  there is one), where now is the clock in whole seconds.  The one event of the call is
  the signing: no request is sent.
\<close>

theorem getToken_signs_locally:
  "truthy (secretKey a) \<and> \<not> token_in_lifetime w a \<longrightarrow>
     getToken w a =
       (Inr (JStr (sign w
               \<lparr>iss = opt_iss (tokenOptions a),
                iat = now w div 1000 - 30,
                nbf = now w div 1000 - 30,
                exp = now w div 1000 + opt_age (tokenOptions a),
                jti = publicKey a,
                file_encryption_key = opt_file_encryption_key (tokenOptions a)\<rparr>
               (secretKey a))),
        a\<lparr>token := JStr (sign w
               \<lparr>iss = opt_iss (tokenOptions a),
                iat = now w div 1000 - 30,
                nbf = now w div 1000 - 30,
                exp = now w div 1000 + opt_age (tokenOptions a),
                jti = publicKey a,
                file_encryption_key = opt_file_encryption_key (tokenOptions a)\<rparr>
               (secretKey a))\<rparr>,
        [Signed
           \<lparr>iss = opt_iss (tokenOptions a),
            iat = now w div 1000 - 30,
            nbf = now w div 1000 - 30,
            exp = now w div 1000 + opt_age (tokenOptions a),
            jti = publicKey a,
            file_encryption_key = opt_file_encryption_key (tokenOptions a)\<rparr>
           (secretKey a)])"
proof (cases "truthy (token a)")
  case True
  then show ?thesis
    by (auto simp: getToken_def verifyToken_not_in_lifetime getTokenLocally_def Let_def
        TIME_DELAY_def)
next
  case False
  then show ?thesis
    by (auto simp: getToken_def verifyToken_no_token getTokenLocally_def Let_def TIME_DELAY_def)
qed

theorem getToken_signs_locally_witness:
  "getToken example_env example_auth =
     (Inr (JStr ''fresh.jwt''), example_auth\<lparr>token := JStr ''fresh.jwt''\<rparr>,
      [Signed \<lparr>iss = ''api.ilovepdf.com'', iat = 1699999970, nbf = 1699999970,
               exp = 1700003600, jti = ''project_public_key'', file_encryption_key = None\<rparr>
         (JStr ''secret'')]) \<and>
   getToken expired_env cached_auth =
     (Inr (JStr ''fresh.jwt''), example_auth\<lparr>token := JStr ''fresh.jwt''\<rparr>,
      [Signed \<lparr>iss = ''api.ilovepdf.com'', iat = 1700003571, nbf = 1700003571,
               exp = 1700007201, jti = ''project_public_key'', file_encryption_key = None\<rparr>
         (JStr ''secret'')])"
proof -
  have "\<not> token_in_lifetime example_env example_auth" "\<not> token_in_lifetime expired_env cached_auth"
    by (simp_all add: token_in_lifetime_def example_auth_def cached_auth_def expired_env_def
        example_env_def)
  then show ?thesis
    using getToken_signs_locally [of example_auth example_env]
      getToken_signs_locally [of cached_auth expired_env]
    by (simp add: example_auth_def cached_auth_def expired_env_def example_env_def)
qed



end
